theory Spec2Isabelle
  imports Main "HOL-Library.AList"
begin

section \<open>Record store\<close>

text \<open>
  The five archivable models of \<^verbatim>\<open>maps/models.py\<close> and \<^verbatim>\<open>users/models.py\<close> share three
  columns: \<^verbatim>\<open>timestamp\<close>, \<^verbatim>\<open>is_archived\<close> and \<^verbatim>\<open>archived_at\<close>. Every other column of a
  model (location, risk codes, casualty counts, ...) is kept in \<open>business\<close>, whose type
  is left open. An instant is a count of microseconds since \<^verbatim>\<open>datetime.min\<close>.
  \<^verbatim>\<open>UserLog\<close> is declared in \<^verbatim>\<open>users/models.py\<close>; the commands filter and update it on the
  same three columns as the other four models.
\<close>

type_synonym instant = int

datatype kind = Assessments | Reports | Certificates | FloodActivities | UserLogs

record 'b row =
  pk :: nat
  business :: 'b
  timestamp :: instant
  is_archived :: bool
  archived_at :: "instant option"

type_synonym 'b database = "kind \<Rightarrow> 'b row list"

definition all_kinds :: "kind list" where
  "all_kinds = [Assessments, Reports, Certificates, FloodActivities, UserLogs]"

text \<open>\<^verbatim>\<open>QuerySet.filter(...).count()\<close> and \<^verbatim>\<open>QuerySet.filter(...).update(...)\<close> on one table.\<close>

definition qs_count :: "('b row \<Rightarrow> bool) \<Rightarrow> 'b row list \<Rightarrow> nat" where
  "qs_count p rows = length (filter p rows)"

definition qs_update :: "('b row \<Rightarrow> bool) \<Rightarrow> ('b row \<Rightarrow> 'b row) \<Rightarrow> 'b row list \<Rightarrow> 'b row list" where
  "qs_update p f rows = map (\<lambda>r. if p r then f r else r) rows"

section \<open>Errors, console output, the outside world\<close>

datatype message =
    MustChooseMode     \<comment> \<open>You must specify either --dry-run or --execute. ...\<close>
  | BothModes          \<comment> \<open>Cannot use both --dry-run and --execute together.\<close>
  | YearsTooSmall      \<comment> \<open>Years must be at least 1.\<close>
  | MustChooseSelector \<comment> \<open>You must specify either --all, --type, or --date-from/--date-to\<close>
  | InvalidDateFrom    \<comment> \<open>Invalid date-from format. Use YYYY-MM-DD\<close>
  | InvalidDateTo      \<comment> \<open>Invalid date-to format. Use YYYY-MM-DD\<close>

datatype error =
    CommandError message
  | OverflowError       \<comment> \<open>\<^verbatim>\<open>timedelta\<close> or \<^verbatim>\<open>datetime\<close> arithmetic out of range\<close>
  | DatabaseError kind  \<comment> \<open>the store rejects the UPDATE on that table\<close>
  | KeyError            \<comment> \<open>a dictionary has no entry under the key that is read\<close>

record counts =
  assessments :: nat
  reports :: nat
  certificates :: nat
  flood_activities :: nat
  user_logs :: nat
  total :: nat

text \<open>One constructor for each \<^verbatim>\<open>self.stdout.write\<close> of the commands, with the numbers it prints.\<close>

datatype line =
    Banner
  | Summary counts
  | DryRunComplete
  | NoRecords
  | AboutTo nat
  | Cancelled
  | Heading
  | Wrote kind nat
  | Complete nat

text \<open>
  What a run reads from outside: the two readings of \<^verbatim>\<open>timezone.now()\<close> (in \<^verbatim>\<open>handle\<close> and
  in \<^verbatim>\<open>_archive_records\<close>), the text the operator types at the \<^verbatim>\<open>input()\<close> prompt, and the
  tables on which the store fails an UPDATE.
\<close>

record env =
  now_cutoff :: instant
  now_stamp :: instant
  answer :: string
  broken :: "kind \<Rightarrow> bool"

type_synonym 'b state = "'b database \<times> line list"

type_synonym ('b, 'a) result = "'b state \<times> (error + 'a)"

record 'b run =
  db_after :: "'b database"
  stdout :: "line list"
  raised :: "error option"

definition stdout_write :: "line \<Rightarrow> 'b state \<Rightarrow> 'b state" where
  "stdout_write l s = (fst s, snd s @ [l])"

text \<open>Sequencing of statements: an exception skips the rest and keeps the state reached.\<close>

definition and_then :: "('b, 'a) result \<Rightarrow> ('b state \<Rightarrow> 'a \<Rightarrow> ('b, 'c) result) \<Rightarrow> ('b, 'c) result" where
  "and_then m f = (case m of (s, Inl e) \<Rightarrow> (s, Inl e) | (s, Inr a) \<Rightarrow> f s a)"

text \<open>
  One \<^verbatim>\<open>Model.objects.filter(...).update(...)\<close>: a single UPDATE statement, which either
  changes every matching row and returns their number, or fails and changes none.
\<close>

definition update_stmt ::
  "(kind \<Rightarrow> bool) \<Rightarrow> kind \<Rightarrow> ('b row \<Rightarrow> bool) \<Rightarrow> ('b row \<Rightarrow> 'b row) \<Rightarrow> 'b state \<Rightarrow> ('b, nat) result" where
  "update_stmt brk k p f s =
     (if brk k then (s, Inl (DatabaseError k))
      else (((fst s)(k := qs_update p f (fst s k)), snd s), Inr (qs_count p (fst s k))))"

text \<open>
  The decorator \<^verbatim>\<open>@transaction.atomic\<close>: the body runs in one transaction, committed when the
  body returns and rolled back when it raises. Console output is not part of the store.
\<close>

definition transaction_atomic :: "('b state \<Rightarrow> ('b, 'a) result) \<Rightarrow> 'b state \<Rightarrow> ('b, 'a) result" where
  "transaction_atomic body s =
     (case body s of
        (s', Inl e) \<Rightarrow> ((fst s, snd s'), Inl e)
      | (s', Inr a) \<Rightarrow> (s', Inr a))"

text \<open>\<^verbatim>\<open>str.lower()\<close> on code points below 256 (ASCII and Latin-1 capitals move up by 32).\<close>

definition lower_char :: "char \<Rightarrow> char" where
  "lower_char c =
     (let n = (of_char c :: nat)
      in if (65 \<le> n \<and> n \<le> 90) \<or> (192 \<le> n \<and> n \<le> 222 \<and> n \<noteq> 215) then char_of (n + 32) else c)"

definition lower :: "string \<Rightarrow> string" where
  "lower s = map lower_char s"

text \<open>Truth value of an optional command-line string: \<^verbatim>\<open>None\<close> and the empty string are false.\<close>

fun truthy :: "string option \<Rightarrow> bool" where
  "truthy None = False"
| "truthy (Some s) = (s \<noteq> [])"

section \<open>archive\_old\_records\<close>

definition archive_filter :: "instant \<Rightarrow> 'b row \<Rightarrow> bool" where
  "archive_filter cutoff_date r = (timestamp r < cutoff_date \<and> is_archived r = False)"

definition archive_fields :: "instant \<Rightarrow> 'b row \<Rightarrow> 'b row" where
  "archive_fields now r = r\<lparr>is_archived := True, archived_at := Some now\<rparr>"

text \<open>
  \<^verbatim>\<open>timezone.now() - timedelta(days=d)\<close>, with the range checks of \<^verbatim>\<open>timedelta\<close> (at most
  999999999 days either way) and of \<^verbatim>\<open>datetime\<close> (no instant before \<^verbatim>\<open>datetime.min\<close>). The
  command calls it with a positive number of days, so the result is never later than
  the clock reading.
\<close>

definition minus_days :: "instant \<Rightarrow> int \<Rightarrow> error + instant" where
  "minus_days t d =
     (if d < - 999999999 \<or> 999999999 < d then Inl OverflowError
      else if t - d * 86400000000 < 0 then Inl OverflowError
      else Inr (t - d * 86400000000))"

definition archive_count_records :: "instant \<Rightarrow> bool \<Rightarrow> 'b database \<Rightarrow> counts" where
  "archive_count_records cutoff_date include_logs db =
     (let a = qs_count (archive_filter cutoff_date) (db Assessments);
          r = qs_count (archive_filter cutoff_date) (db Reports);
          c = qs_count (archive_filter cutoff_date) (db Certificates);
          f = qs_count (archive_filter cutoff_date) (db FloodActivities);
          u = (if include_logs then qs_count (archive_filter cutoff_date) (db UserLogs) else 0)
      in \<lparr>assessments = a, reports = r, certificates = c, flood_activities = f,
          user_logs = u, total = a + r + c + f + u\<rparr>)"

definition confirm_archiving :: "counts \<Rightarrow> string \<Rightarrow> bool \<times> line list" where
  "confirm_archiving cs response =
     (if total cs = 0 then (False, [NoRecords])
      else (lower response = ''yes'', [AboutTo (total cs)]))"

definition archive_records_body ::
  "(kind \<Rightarrow> bool) \<Rightarrow> instant \<Rightarrow> instant \<Rightarrow> bool \<Rightarrow> 'b state \<Rightarrow> ('b, counts) result" where
  "archive_records_body brk cutoff_date now include_logs s0 =
     and_then (update_stmt brk Assessments (archive_filter cutoff_date) (archive_fields now) s0)
       (\<lambda>s1 assessment_count.
     and_then (update_stmt brk Reports (archive_filter cutoff_date) (archive_fields now)
                 (stdout_write (Wrote Assessments assessment_count) s1))
       (\<lambda>s2 report_count.
     and_then (update_stmt brk Certificates (archive_filter cutoff_date) (archive_fields now)
                 (stdout_write (Wrote Reports report_count) s2))
       (\<lambda>s3 certificate_count.
     and_then (update_stmt brk FloodActivities (archive_filter cutoff_date) (archive_fields now)
                 (stdout_write (Wrote Certificates certificate_count) s3))
       (\<lambda>s4 flood_count.
     and_then (if include_logs
               then and_then (update_stmt brk UserLogs (archive_filter cutoff_date) (archive_fields now)
                                (stdout_write (Wrote FloodActivities flood_count) s4))
                      (\<lambda>s5 log_count. (stdout_write (Wrote UserLogs log_count) s5, Inr log_count))
               else (stdout_write (Wrote FloodActivities flood_count) s4, Inr 0))
       (\<lambda>s6 logs.
          (s6, Inr \<lparr>assessments = assessment_count, reports = report_count,
                    certificates = certificate_count, flood_activities = flood_count,
                    user_logs = logs,
                    total = assessment_count + report_count + certificate_count
                            + flood_count + logs\<rparr>))))))"

definition archive_records ::
  "(kind \<Rightarrow> bool) \<Rightarrow> instant \<Rightarrow> instant \<Rightarrow> bool \<Rightarrow> 'b state \<Rightarrow> ('b, counts) result" where
  "archive_records brk cutoff_date now include_logs =
     transaction_atomic (archive_records_body brk cutoff_date now include_logs)"

definition archive_handle :: "env \<Rightarrow> int \<Rightarrow> bool \<Rightarrow> bool \<Rightarrow> bool \<Rightarrow> 'b database \<Rightarrow> 'b run" where
  "archive_handle e years dry_run execute include_logs db =
     (if \<not> dry_run \<and> \<not> execute
      then \<lparr>db_after = db, stdout = [], raised = Some (CommandError MustChooseMode)\<rparr>
      else if dry_run \<and> execute
      then \<lparr>db_after = db, stdout = [], raised = Some (CommandError BothModes)\<rparr>
      else if years < 1
      then \<lparr>db_after = db, stdout = [], raised = Some (CommandError YearsTooSmall)\<rparr>
      else
        (case minus_days (now_cutoff e) (365 * years) of
           Inl err \<Rightarrow> \<lparr>db_after = db, stdout = [], raised = Some err\<rparr>
         | Inr cutoff_date \<Rightarrow>
             (let cs = archive_count_records cutoff_date include_logs db;
                  out = [Banner, Summary cs]
              in if dry_run
                 then \<lparr>db_after = db, stdout = out @ [DryRunComplete], raised = None\<rparr>
                 else
                   (case confirm_archiving cs (answer e) of
                      (False, asked) \<Rightarrow>
                        \<lparr>db_after = db, stdout = out @ asked @ [Cancelled], raised = None\<rparr>
                    | (True, asked) \<Rightarrow>
                        (case archive_records (broken e) cutoff_date (now_stamp e) include_logs
                                (db, out @ asked @ [Heading]) of
                           ((db', out'), Inl err) \<Rightarrow>
                             \<lparr>db_after = db', stdout = out', raised = Some err\<rparr>
                         | ((db', out'), Inr archived_counts) \<Rightarrow>
                             \<lparr>db_after = db', stdout = out' @ [Complete (total archived_counts)],
                              raised = None\<rparr>)))))"

section \<open>restore\_archived\_records\<close>

text \<open>\<^verbatim>\<open>_get_queryset\<close>: archived rows, narrowed by each bound that is given.\<close>

definition get_queryset :: "instant option \<Rightarrow> instant option \<Rightarrow> 'b row \<Rightarrow> bool" where
  "get_queryset date_from date_to r =
     (is_archived r = True
      \<and> (case date_from of None \<Rightarrow> True | Some d \<Rightarrow> d \<le> timestamp r)
      \<and> (case date_to of None \<Rightarrow> True | Some d \<Rightarrow> timestamp r \<le> d))"

definition restore_fields :: "'b row \<Rightarrow> 'b row" where
  "restore_fields r = r\<lparr>is_archived := False, archived_at := None\<rparr>"

definition restore_count_records ::
  "bool \<Rightarrow> string option \<Rightarrow> instant option \<Rightarrow> instant option \<Rightarrow> 'b database \<Rightarrow> counts" where
  "restore_count_records restore_all record_type date_from date_to db =
     (let a = (if restore_all \<or> record_type = Some ''assessments''
               then qs_count (get_queryset date_from date_to) (db Assessments) else 0);
          r = (if restore_all \<or> record_type = Some ''reports''
               then qs_count (get_queryset date_from date_to) (db Reports) else 0);
          c = (if restore_all \<or> record_type = Some ''certificates''
               then qs_count (get_queryset date_from date_to) (db Certificates) else 0);
          f = (if restore_all \<or> record_type = Some ''flood_activities''
               then qs_count (get_queryset date_from date_to) (db FloodActivities) else 0);
          u = (if restore_all \<or> record_type = Some ''user_logs''
               then qs_count (get_queryset date_from date_to) (db UserLogs) else 0)
      in \<lparr>assessments = a, reports = r, certificates = c, flood_activities = f,
          user_logs = u, total = a + r + c + f + u\<rparr>)"

definition confirm_restoration :: "counts \<Rightarrow> string \<Rightarrow> bool \<times> line list" where
  "confirm_restoration cs response =
     (if total cs = 0 then (False, [NoRecords])
      else (lower response = ''yes'', [AboutTo (total cs)]))"

text \<open>
  One of the five blocks of \<^verbatim>\<open>_restore_records\<close>: when the kind is selected, update it, store
  the count under the kind's key and print it. The dictionary \<^verbatim>\<open>restored_counts\<close> travels
  with the state.
\<close>

definition restore_block ::
  "(kind \<Rightarrow> bool) \<Rightarrow> bool \<Rightarrow> string option \<Rightarrow> instant option \<Rightarrow> instant option \<Rightarrow>
   string \<Rightarrow> kind \<Rightarrow> 'b state \<Rightarrow> (string \<times> nat) list \<Rightarrow> ('b, (string \<times> nat) list) result" where
  "restore_block brk restore_all record_type date_from date_to name k s restored_counts =
     (if restore_all \<or> record_type = Some name
      then and_then (update_stmt brk k (get_queryset date_from date_to) restore_fields s)
             (\<lambda>s' count. (stdout_write (Wrote k count) s', Inr (AList.update name count restored_counts)))
      else (s, Inr restored_counts))"

definition restore_records_body ::
  "(kind \<Rightarrow> bool) \<Rightarrow> bool \<Rightarrow> string option \<Rightarrow> instant option \<Rightarrow> instant option \<Rightarrow>
   'b state \<Rightarrow> ('b, (string \<times> nat) list) result" where
  "restore_records_body brk restore_all record_type date_from date_to s0 =
     and_then (restore_block brk restore_all record_type date_from date_to
                 ''assessments'' Assessments s0 [])
       (\<lambda>s1 d1.
     and_then (restore_block brk restore_all record_type date_from date_to
                 ''reports'' Reports s1 d1)
       (\<lambda>s2 d2.
     and_then (restore_block brk restore_all record_type date_from date_to
                 ''certificates'' Certificates s2 d2)
       (\<lambda>s3 d3.
     and_then (restore_block brk restore_all record_type date_from date_to
                 ''flood_activities'' FloodActivities s3 d3)
       (\<lambda>s4 d4.
     and_then (restore_block brk restore_all record_type date_from date_to
                 ''user_logs'' UserLogs s4 d4)
       (\<lambda>s5 d5. (s5, Inr (AList.update ''total'' (sum_list (map snd d5)) d5)))))))"

definition restore_records ::
  "(kind \<Rightarrow> bool) \<Rightarrow> bool \<Rightarrow> string option \<Rightarrow> instant option \<Rightarrow> instant option \<Rightarrow>
   'b state \<Rightarrow> ('b, (string \<times> nat) list) result" where
  "restore_records brk restore_all record_type date_from date_to =
     transaction_atomic (restore_records_body brk restore_all record_type date_from date_to)"

text \<open>
  \<^verbatim>\<open>datetime.strptime(s, '%Y-%m-%d')\<close> is a parameter: \<open>None\<close> stands for its \<^verbatim>\<open>ValueError\<close>,
  \<open>Some t\<close> for the instant the ORM compares the parsed datetime as.
\<close>

fun parse_date :: "(string \<Rightarrow> instant option) \<Rightarrow> message \<Rightarrow> string option \<Rightarrow> error + instant option" where
  "parse_date strptime msg None = Inr None"
| "parse_date strptime msg (Some s) =
     (if s = [] then Inr None
      else (case strptime s of
              None \<Rightarrow> Inl (CommandError msg)
            | Some t \<Rightarrow> Inr (Some t)))"

text \<open>Reading a dictionary at a key: \<^verbatim>\<open>counts["total"]\<close>.\<close>

definition dict_get :: "(string \<times> nat) list \<Rightarrow> string \<Rightarrow> error + nat" where
  "dict_get d k = (case map_of d k of None \<Rightarrow> Inl KeyError | Some v \<Rightarrow> Inr v)"

definition restore_handle ::
  "(string \<Rightarrow> instant option) \<Rightarrow> env \<Rightarrow> bool \<Rightarrow> bool \<Rightarrow> bool \<Rightarrow> string option \<Rightarrow>
   string option \<Rightarrow> string option \<Rightarrow> 'b database \<Rightarrow> 'b run" where
  "restore_handle strptime e dry_run execute restore_all record_type date_from date_to db =
     (if \<not> dry_run \<and> \<not> execute
      then \<lparr>db_after = db, stdout = [], raised = Some (CommandError MustChooseMode)\<rparr>
      else if dry_run \<and> execute
      then \<lparr>db_after = db, stdout = [], raised = Some (CommandError BothModes)\<rparr>
      else if \<not> restore_all \<and> \<not> truthy record_type \<and> \<not> truthy date_from
      then \<lparr>db_after = db, stdout = [], raised = Some (CommandError MustChooseSelector)\<rparr>
      else
        (case parse_date strptime InvalidDateFrom date_from of
           Inl err \<Rightarrow> \<lparr>db_after = db, stdout = [], raised = Some err\<rparr>
         | Inr date_from_obj \<Rightarrow>
        (case parse_date strptime InvalidDateTo date_to of
           Inl err \<Rightarrow> \<lparr>db_after = db, stdout = [], raised = Some err\<rparr>
         | Inr date_to_obj \<Rightarrow>
             (let cs = restore_count_records restore_all record_type date_from_obj date_to_obj db;
                  out = [Banner, Summary cs]
              in if dry_run
                 then \<lparr>db_after = db, stdout = out @ [DryRunComplete], raised = None\<rparr>
                 else
                   (case confirm_restoration cs (answer e) of
                      (False, asked) \<Rightarrow>
                        \<lparr>db_after = db, stdout = out @ asked @ [Cancelled], raised = None\<rparr>
                    | (True, asked) \<Rightarrow>
                        (case restore_records (broken e) restore_all record_type
                                date_from_obj date_to_obj (db, out @ asked @ [Heading]) of
                           ((db', out'), Inl err) \<Rightarrow>
                             \<lparr>db_after = db', stdout = out', raised = Some err\<rparr>
                         | ((db', out'), Inr restored_counts) \<Rightarrow>
                             (case dict_get restored_counts ''total'' of
                                Inl err \<Rightarrow> \<lparr>db_after = db', stdout = out', raised = Some err\<rparr>
                              | Inr n \<Rightarrow>
                                  \<lparr>db_after = db', stdout = out' @ [Complete n],
                                   raised = None\<rparr>)))))))"

section \<open>Notions used to state the properties\<close>

text \<open>The value of \<^verbatim>\<open>--type\<close> that selects a kind, as written in the five guards.\<close>

fun type_name :: "kind \<Rightarrow> string" where
  "type_name Assessments = ''assessments''"
| "type_name Reports = ''reports''"
| "type_name Certificates = ''certificates''"
| "type_name FloodActivities = ''flood_activities''"
| "type_name UserLogs = ''user_logs''"

text \<open>The pairing of the two archival columns: \<^verbatim>\<open>archived_at\<close> is set exactly on archived rows.\<close>

definition row_paired :: "'b row \<Rightarrow> bool" where
  "row_paired r = ((archived_at r \<noteq> None) = is_archived r)"

definition pairing :: "'b database \<Rightarrow> bool" where
  "pairing db = list_all (\<lambda>k. list_all row_paired (db k)) all_kinds"

subsection \<open>Sample data\<close>

definition old_row :: "string row" where
  "old_row = \<lparr>pk = 1, business = ''Barangay I'', timestamp = 100, is_archived = False,
              archived_at = None\<rparr>"

definition recent_row :: "string row" where
  "recent_row = \<lparr>pk = 2, business = ''Barangay II'', timestamp = 5000, is_archived = False,
                 archived_at = None\<rparr>"

definition shelved_row :: "string row" where
  "shelved_row = \<lparr>pk = 3, business = ''Barangay III'', timestamp = 100, is_archived = True,
                  archived_at = Some 700\<rparr>"

fun sample_db :: "kind \<Rightarrow> string row list" where
  "sample_db Assessments = [old_row, recent_row, shelved_row]"
| "sample_db Reports = [old_row, shelved_row]"
| "sample_db Certificates = []"
| "sample_db FloodActivities = []"
| "sample_db UserLogs = [old_row]"

definition late_row :: "string row" where
  "late_row = \<lparr>pk = 4, business = ''Barangay IV'', timestamp = 900, is_archived = True,
               archived_at = Some 950\<rparr>"

fun report_db :: "kind \<Rightarrow> string row list" where
  "report_db Assessments = [shelved_row]"
| "report_db Reports = [old_row, shelved_row, late_row]"
| "report_db Certificates = []"
| "report_db FloodActivities = []"
| "report_db UserLogs = []"

fun empty_db :: "kind \<Rightarrow> string row list" where
  "empty_db k = []"

fun no_failure :: "kind \<Rightarrow> bool" where
  "no_failure k = False"

fun reports_fail :: "kind \<Rightarrow> bool" where
  "reports_fail k = (k = Reports)"

text \<open>With \<^verbatim>\<open>--years=1\<close> the cutoff of these environments is the instant 1000.\<close>

definition sample_env :: env where
  "sample_env = \<lparr>now_cutoff = 31536000001000, now_stamp = 31536000001007,
                 answer = ''Yes'', broken = no_failure\<rparr>"

definition failing_env :: env where
  "failing_env = \<lparr>now_cutoff = 31536000001000, now_stamp = 31536000001007,
                  answer = ''yes'', broken = reports_fail\<rparr>"

definition declining_env :: env where
  "declining_env = \<lparr>now_cutoff = 31536000001000, now_stamp = 31536000001007,
                    answer = ''y'', broken = no_failure\<rparr>"

fun sample_strptime :: "string \<Rightarrow> instant option" where
  "sample_strptime s =
     (if s = ''2023-01-01'' then Some 50
      else if s = ''2023-12-31'' then Some 150
      else None)"

section \<open>Basic facts\<close>

subsection \<open>Querysets\<close>

lemma length_qs_update: "length (qs_update p f rows) = length rows"
  by (simp add: qs_update_def)

lemma nth_qs_update:
  "i < length rows \<Longrightarrow> qs_update p f rows ! i = (if p (rows ! i) then f (rows ! i) else rows ! i)"
  by (simp add: qs_update_def)

lemma qs_count_zero_iff: "qs_count p rows = 0 \<longleftrightarrow> (\<forall>r\<in>set rows. \<not> p r)"
  by (simp add: qs_count_def filter_empty_conv)

lemma qs_update_none: "qs_count p rows = 0 \<Longrightarrow> qs_update p f rows = rows"
  unfolding qs_count_zero_iff qs_update_def
  by (induction rows) simp_all

lemma qs_update_some:
  assumes "qs_count p rows \<noteq> 0" and "\<And>r. p r \<Longrightarrow> f r \<noteq> r"
  shows "qs_update p f rows \<noteq> rows"
proof
  assume same: "qs_update p f rows = rows"
  from assms(1) obtain r where r: "r \<in> set rows" "p r"
    unfolding qs_count_zero_iff by blast
  from r(1) obtain i where i: "i < length rows" "rows ! i = r"
    by (auto simp: in_set_conv_nth)
  have "qs_update p f rows ! i = f r"
    using i r(2) by (simp add: nth_qs_update)
  with same i have "f r = r" by simp
  with assms(2) [OF r(2)] show False by simp
qed

lemma archive_fields_changes: "archive_filter c r \<Longrightarrow> archive_fields n r \<noteq> r"
proof
  assume "archive_filter c r" and "archive_fields n r = r"
  then have "is_archived (archive_fields n r) = False"
    by (simp add: archive_filter_def)
  then show False by (simp add: archive_fields_def)
qed

lemma restore_fields_changes: "get_queryset df dt r \<Longrightarrow> restore_fields r \<noteq> r"
proof
  assume "get_queryset df dt r" and "restore_fields r = r"
  then have "is_archived (restore_fields r) = True"
    by (simp add: get_queryset_def)
  then show False by (simp add: restore_fields_def)
qed

lemma archive_filter_after: "\<not> archive_filter c (archive_fields n r)"
  by (simp add: archive_filter_def archive_fields_def)

lemma qs_count_archived_again:
  "qs_count (archive_filter c) (qs_update (archive_filter c) (archive_fields n) rows) = 0"
  unfolding qs_count_zero_iff qs_update_def
  by (auto simp: archive_filter_after)

subsection \<open>Lower case\<close>

lemma lower_char_eq_iff:
  assumes d: "97 \<le> (of_char d :: nat)" "(of_char d :: nat) \<le> 122"
    and u: "(of_char u :: nat) + 32 = of_char d"
  shows "lower_char c = d \<longleftrightarrow> c = d \<or> c = u"
proof (cases "(65 \<le> (of_char c :: nat) \<and> (of_char c :: nat) \<le> 90)
              \<or> (192 \<le> (of_char c :: nat) \<and> (of_char c :: nat) \<le> 222 \<and> (of_char c :: nat) \<noteq> 215)")
  case True
  then have l: "lower_char c = char_of ((of_char c :: nat) + 32)"
    by (simp add: lower_char_def Let_def)
  have m: "((of_char c :: nat) + 32) mod 256 = of_char c + 32"
    using True by auto
  have "lower_char c = d \<longleftrightarrow> (of_char c :: nat) + 32 = of_char d"
    unfolding l by (simp add: char_of_eq_iff take_bit_eq_mod m)
  also have "\<dots> \<longleftrightarrow> (of_char c :: nat) + 32 = of_char u + 32"
    using u by simp
  also have "\<dots> \<longleftrightarrow> c = u"
    by simp
  finally have "lower_char c = d \<longleftrightarrow> c = u" .
  moreover have "c \<noteq> d"
    using True d by auto
  ultimately show ?thesis by simp
next
  case False
  then have l: "lower_char c = c"
    by (auto simp add: lower_char_def Let_def)
  have "c \<noteq> u"
    using False d u by auto
  then show ?thesis using l by auto
qed

lemma map_eq_three:
  "map f s = [x, y, z] \<longleftrightarrow> (\<exists>a b c. s = [a, b, c] \<and> f a = x \<and> f b = y \<and> f c = z)"
  by (auto simp: map_eq_Cons_conv)

text \<open>The responses that confirm are the eight spellings of \<open>yes\<close> in either case.\<close>

lemma lower_yes_iff:
  "lower s = ''yes'' \<longleftrightarrow>
     (\<exists>a b c. s = [a, b, c] \<and> a \<in> {CHR ''y'', CHR ''Y''} \<and> b \<in> {CHR ''e'', CHR ''E''}
        \<and> c \<in> {CHR ''s'', CHR ''S''})"
proof -
  have y: "\<And>c. lower_char c = CHR ''y'' \<longleftrightarrow> c = CHR ''y'' \<or> c = CHR ''Y''"
    by (rule lower_char_eq_iff) simp_all
  have e: "\<And>c. lower_char c = CHR ''e'' \<longleftrightarrow> c = CHR ''e'' \<or> c = CHR ''E''"
    by (rule lower_char_eq_iff) simp_all
  have s: "\<And>c. lower_char c = CHR ''s'' \<longleftrightarrow> c = CHR ''s'' \<or> c = CHR ''S''"
    by (rule lower_char_eq_iff) simp_all
  show ?thesis
    unfolding lower_def map_eq_three y e s by simp
qed

subsection \<open>The mutating step of the archive command\<close>

lemma and_then_InrE:
  assumes "and_then m f = (s', Inr b)"
  obtains s a where "m = (s, Inr a)" and "f s a = (s', Inr b)"
  using assms by (auto simp: and_then_def split: prod.splits sum.splits)

lemma transaction_atomic_Inr:
  "transaction_atomic body s = (s', Inr a) \<longleftrightarrow> body s = (s', Inr a)"
  by (auto simp: transaction_atomic_def split: prod.splits sum.splits)

lemma transaction_atomic_Inl:
  "transaction_atomic body s = (s', Inl e) \<Longrightarrow> fst s' = fst s"
  by (auto simp: transaction_atomic_def split: prod.splits sum.splits)

lemma archive_body_tables:
  assumes "archive_records_body brk c n il (db, out) = ((db', out'), Inr cs)"
  shows "db' k = (if k = UserLogs \<and> \<not> il then db k
                  else qs_update (archive_filter c) (archive_fields n) (db k))"
  using assms
  unfolding archive_records_body_def
  by (cases k) (auto simp: update_stmt_def and_then_def stdout_write_def split: if_splits)

lemma archive_body_counts:
  assumes "archive_records_body brk c n il (db, out) = ((db', out'), Inr cs)"
  shows "cs = archive_count_records c il db"
  using assms
  unfolding archive_records_body_def archive_count_records_def
  by (auto simp: update_stmt_def and_then_def stdout_write_def Let_def split: if_splits)

lemma archive_body_returns:
  assumes "\<forall>k. \<not> brk k"
  shows "\<exists>s cs. archive_records_body brk c n il (db, out) = (s, Inr cs)"
  using assms
  unfolding archive_records_body_def
  by (auto simp: update_stmt_def and_then_def stdout_write_def Let_def split: if_splits)

lemma archive_records_tables:
  assumes "archive_records brk c n il (db, out) = ((db', out'), Inr cs)"
  shows "db' k = (if k = UserLogs \<and> \<not> il then db k
                  else qs_update (archive_filter c) (archive_fields n) (db k))"
  using assms archive_body_tables
  unfolding archive_records_def transaction_atomic_Inr by fast

lemma archive_records_counts:
  assumes "archive_records brk c n il (db, out) = ((db', out'), Inr cs)"
  shows "cs = archive_count_records c il db"
  using assms archive_body_counts
  unfolding archive_records_def transaction_atomic_Inr by fast

lemma archive_records_returns:
  assumes "\<forall>k. \<not> brk k"
  shows "\<exists>db' out' cs. archive_records brk c n il (db, out) = ((db', out'), Inr cs)"
proof -
  from archive_body_returns [OF assms] obtain s cs
    where "archive_records_body brk c n il (db, out) = (s, Inr cs)" by blast
  then have "archive_records brk c n il (db, out) = ((fst s, snd s), Inr cs)"
    by (simp add: archive_records_def transaction_atomic_Inr)
  then show ?thesis by blast
qed

lemma archive_records_rollback:
  assumes "archive_records brk c n il (db, out) = ((db', out'), Inl e)"
  shows "db' = db"
  using transaction_atomic_Inl [of _ "(db, out)" "(db', out')" e] assms
  unfolding archive_records_def by simp

subsection \<open>The mutating step of the restore command\<close>

lemma restore_block_tables:
  assumes "restore_block brk ra rt df dt name k (db, out) d = ((db', out'), Inr d')"
  shows "db' = (if ra \<or> rt = Some name
                then db(k := qs_update (get_queryset df dt) restore_fields (db k)) else db)"
  using assms
  by (auto simp: restore_block_def update_stmt_def and_then_def stdout_write_def split: if_splits)

lemma restore_block_returns:
  assumes "(ra \<or> rt = Some name) \<longrightarrow> \<not> brk k"
  shows "\<exists>s' d'. restore_block brk ra rt df dt name k s d = (s', Inr d')"
  using assms
  by (auto simp: restore_block_def update_stmt_def and_then_def stdout_write_def split: if_splits)

lemma restore_body_tables:
  assumes "restore_records_body brk ra rt df dt (db, out) = ((db', out'), Inr d)"
  shows "db' k = (if ra \<or> rt = Some (type_name k)
                  then qs_update (get_queryset df dt) restore_fields (db k) else db k)"
proof -
  from assms obtain s1 d1 s2 d2 s3 d3 s4 d4 s5 d5 where
    b1: "restore_block brk ra rt df dt ''assessments'' Assessments (db, out) [] = (s1, Inr d1)" and
    b2: "restore_block brk ra rt df dt ''reports'' Reports s1 d1 = (s2, Inr d2)" and
    b3: "restore_block brk ra rt df dt ''certificates'' Certificates s2 d2 = (s3, Inr d3)" and
    b4: "restore_block brk ra rt df dt ''flood_activities'' FloodActivities s3 d3 = (s4, Inr d4)" and
    b5: "restore_block brk ra rt df dt ''user_logs'' UserLogs s4 d4 = (s5, Inr d5)" and
    fin: "s5 = (db', out')"
    unfolding restore_records_body_def
    by (elim and_then_InrE) auto
  have 1: "fst s1 = (if ra \<or> rt = Some ''assessments''
                     then db(Assessments := qs_update (get_queryset df dt) restore_fields (db Assessments))
                     else db)"
    using restore_block_tables [of brk ra rt df dt "''assessments''" Assessments db out "[]" "fst s1" "snd s1" d1] b1
    by simp
  have 2: "fst s2 = (if ra \<or> rt = Some ''reports''
                     then (fst s1)(Reports := qs_update (get_queryset df dt) restore_fields (fst s1 Reports))
                     else fst s1)"
    using restore_block_tables [of brk ra rt df dt "''reports''" Reports "fst s1" "snd s1" d1 "fst s2" "snd s2" d2] b2
    by simp
  have 3: "fst s3 = (if ra \<or> rt = Some ''certificates''
                     then (fst s2)(Certificates := qs_update (get_queryset df dt) restore_fields (fst s2 Certificates))
                     else fst s2)"
    using restore_block_tables [of brk ra rt df dt "''certificates''" Certificates "fst s2" "snd s2" d2 "fst s3" "snd s3" d3] b3
    by simp
  have 4: "fst s4 = (if ra \<or> rt = Some ''flood_activities''
                     then (fst s3)(FloodActivities := qs_update (get_queryset df dt) restore_fields (fst s3 FloodActivities))
                     else fst s3)"
    using restore_block_tables [of brk ra rt df dt "''flood_activities''" FloodActivities "fst s3" "snd s3" d3 "fst s4" "snd s4" d4] b4
    by simp
  have 5: "fst s5 = (if ra \<or> rt = Some ''user_logs''
                     then (fst s4)(UserLogs := qs_update (get_queryset df dt) restore_fields (fst s4 UserLogs))
                     else fst s4)"
    using restore_block_tables [of brk ra rt df dt "''user_logs''" UserLogs "fst s4" "snd s4" d4 "fst s5" "snd s5" d5] b5
    by simp
  have "db' = fst s5" using fin by simp
  then show ?thesis
    unfolding 5 4 3 2 1 by (cases k) simp_all
qed

lemma restore_body_returns:
  assumes "\<forall>k. (ra \<or> rt = Some (type_name k)) \<longrightarrow> \<not> brk k"
  shows "\<exists>s d. restore_records_body brk ra rt df dt s0 = (s, Inr d)"
proof -
  have "\<exists>s d. restore_block brk ra rt df dt ''assessments'' Assessments s0 [] = (s, Inr d)"
    using assms [rule_format, of Assessments] by (intro restore_block_returns) simp
  then obtain s1 d1 where
    b1: "restore_block brk ra rt df dt ''assessments'' Assessments s0 [] = (s1, Inr d1)"
    by blast
  have "\<exists>s d. restore_block brk ra rt df dt ''reports'' Reports s1 d1 = (s, Inr d)"
    using assms [rule_format, of Reports] by (intro restore_block_returns) simp
  then obtain s2 d2 where
    b2: "restore_block brk ra rt df dt ''reports'' Reports s1 d1 = (s2, Inr d2)"
    by blast
  have "\<exists>s d. restore_block brk ra rt df dt ''certificates'' Certificates s2 d2 = (s, Inr d)"
    using assms [rule_format, of Certificates] by (intro restore_block_returns) simp
  then obtain s3 d3 where
    b3: "restore_block brk ra rt df dt ''certificates'' Certificates s2 d2 = (s3, Inr d3)"
    by blast
  have "\<exists>s d. restore_block brk ra rt df dt ''flood_activities'' FloodActivities s3 d3 = (s, Inr d)"
    using assms [rule_format, of FloodActivities] by (intro restore_block_returns) simp
  then obtain s4 d4 where
    b4: "restore_block brk ra rt df dt ''flood_activities'' FloodActivities s3 d3 = (s4, Inr d4)"
    by blast
  have "\<exists>s d. restore_block brk ra rt df dt ''user_logs'' UserLogs s4 d4 = (s, Inr d)"
    using assms [rule_format, of UserLogs] by (intro restore_block_returns) simp
  then obtain s5 d5 where
    b5: "restore_block brk ra rt df dt ''user_logs'' UserLogs s4 d4 = (s5, Inr d5)"
    by blast
  show ?thesis
    unfolding restore_records_body_def
    by (simp add: b1 b2 b3 b4 b5 and_then_def)
qed

lemma restore_records_tables:
  assumes "restore_records brk ra rt df dt (db, out) = ((db', out'), Inr d)"
  shows "db' k = (if ra \<or> rt = Some (type_name k)
                  then qs_update (get_queryset df dt) restore_fields (db k) else db k)"
  using assms restore_body_tables
  unfolding restore_records_def transaction_atomic_Inr by fast

lemma restore_records_returns:
  assumes "\<forall>k. (ra \<or> rt = Some (type_name k)) \<longrightarrow> \<not> brk k"
  shows "\<exists>db' out' d. restore_records brk ra rt df dt s0 = ((db', out'), Inr d)"
proof -
  from restore_body_returns [OF assms] obtain s d
    where "restore_records_body brk ra rt df dt s0 = (s, Inr d)" by blast
  then have "restore_records brk ra rt df dt s0 = ((fst s, snd s), Inr d)"
    by (simp add: restore_records_def transaction_atomic_Inr)
  then show ?thesis by blast
qed

lemma restore_records_total_key:
  assumes "restore_records brk ra rt df dt s = (s', Inr d)"
  shows "\<exists>n. dict_get d ''total'' = Inr n"
proof -
  from assms have "restore_records_body brk ra rt df dt s = (s', Inr d)"
    by (simp add: restore_records_def transaction_atomic_Inr)
  then obtain d5 where "d = AList.update ''total'' (sum_list (map snd d5)) d5"
    unfolding restore_records_body_def
    by (elim and_then_InrE) auto
  then show ?thesis
    by (simp add: dict_get_def AList.update_conv')
qed

lemma restore_records_rollback:
  assumes "restore_records brk ra rt df dt (db, out) = ((db', out'), Inl e)"
  shows "db' = db"
  using transaction_atomic_Inl [of _ "(db, out)" "(db', out')" e] assms
  unfolding restore_records_def by simp


subsection \<open>The archive command as a whole\<close>

text \<open>The four ways in which \<^verbatim>\<open>handle\<close> ends.\<close>

lemma archive_handle_cases:
  obtains
    (refused) err where
      "archive_handle e years dry_run execute il db =
         \<lparr>db_after = db, stdout = [], raised = Some err\<rparr>"
  | (stopped) out where
      "archive_handle e years dry_run execute il db =
         \<lparr>db_after = db, stdout = out, raised = None\<rparr>"
  | (failed) c out db' out' err where
      "archive_records (broken e) c (now_stamp e) il (db, out) = ((db', out'), Inl err)"
      "archive_handle e years dry_run execute il db =
         \<lparr>db_after = db', stdout = out', raised = Some err\<rparr>"
  | (finished) c out db' out' cs where
      "archive_records (broken e) c (now_stamp e) il (db, out) = ((db', out'), Inr cs)"
      "archive_handle e years dry_run execute il db =
         \<lparr>db_after = db', stdout = out' @ [Complete (total cs)], raised = None\<rparr>"
proof (cases "(\<not> dry_run \<and> \<not> execute) \<or> (dry_run \<and> execute) \<or> years < 1")
  case True
  then have "archive_handle e years dry_run execute il db =
               \<lparr>db_after = db, stdout = [],
                raised = Some (CommandError
                  (if \<not> dry_run \<and> \<not> execute then MustChooseMode
                   else if dry_run \<and> execute then BothModes else YearsTooSmall))\<rparr>"
    by (auto simp: archive_handle_def)
  then show ?thesis by (rule refused)
next
  case valid: False
  show ?thesis
  proof (cases "minus_days (now_cutoff e) (365 * years)")
    case (Inl err)
    with valid show ?thesis
      by (intro refused [of err]) (auto simp: archive_handle_def)
  next
    case (Inr c)
    let ?cs = "archive_count_records c il db"
    show ?thesis
    proof (cases dry_run)
      case True
      with valid Inr show ?thesis
        by (intro stopped) (auto simp: archive_handle_def Let_def)
    next
      case False
      obtain ok asked where conf: "confirm_archiving ?cs (answer e) = (ok, asked)"
        by (cases "confirm_archiving ?cs (answer e)") blast
      show ?thesis
      proof (cases ok)
        case False
        with valid Inr \<open>\<not> dry_run\<close> conf show ?thesis
          by (intro stopped) (auto simp: archive_handle_def Let_def)
      next
        case True
        let ?out = "[Banner, Summary ?cs] @ asked @ [Heading]"
        obtain db' out' res where
          run: "archive_records (broken e) c (now_stamp e) il (db, ?out) = ((db', out'), res)"
          by (metis surj_pair)
        show ?thesis
        proof (cases res)
          case (Inl err)
          with valid \<open>minus_days (now_cutoff e) (365 * years) = Inr c\<close> \<open>\<not> dry_run\<close> conf True run
          show ?thesis
            by (intro failed [of c ?out db' out' err]) (auto simp: archive_handle_def Let_def)
        next
          case (Inr cs)
          with valid \<open>minus_days (now_cutoff e) (365 * years) = Inr c\<close> \<open>\<not> dry_run\<close> conf True run
          show ?thesis
            by (intro finished [of c ?out db' out' cs]) (auto simp: archive_handle_def Let_def)
        qed
      qed
    qed
  qed
qed

lemma archive_handle_error:
  assumes "raised (archive_handle e years dry_run execute il db) \<noteq> None"
  shows "db_after (archive_handle e years dry_run execute il db) = db"
proof (cases rule: archive_handle_cases [of e years dry_run execute il db])
  case (refused err)
  then show ?thesis by simp
next
  case (stopped out)
  then show ?thesis by simp
next
  case (failed c out db' out' err)
  then show ?thesis using archive_records_rollback [OF failed(1)] by simp
next
  case (finished c out db' out' cs)
  then show ?thesis using assms by simp
qed

lemma archive_handle_shape:
  "db_after (archive_handle e years dry_run execute il db) = db
   \<or> (\<exists>c. \<forall>k. db_after (archive_handle e years dry_run execute il db) k =
              (if k = UserLogs \<and> \<not> il then db k
               else qs_update (archive_filter c) (archive_fields (now_stamp e)) (db k)))"
proof (cases rule: archive_handle_cases [of e years dry_run execute il db])
  case (refused err)
  then show ?thesis by simp
next
  case (stopped out)
  then show ?thesis by simp
next
  case (failed c out db' out' err)
  then show ?thesis using archive_records_rollback [OF failed(1)] by simp
next
  case (finished c out db' out' cs)
  have "\<forall>k. db' k = (if k = UserLogs \<and> \<not> il then db k
                else qs_update (archive_filter c) (archive_fields (now_stamp e)) (db k))"
    using archive_records_tables [OF finished(1)] by blast
  then show ?thesis unfolding finished(2) by auto
qed

lemma archive_handle_dry_run:
  "db_after (archive_handle e years True execute il db) = db"
  unfolding archive_handle_def Let_def
  by (simp split: sum.splits)

lemma archive_handle_confirmed:
  assumes "1 \<le> years" and "minus_days (now_cutoff e) (365 * years) = Inr c"
    and "total (archive_count_records c il db) \<noteq> 0"
    and "lower (answer e) = ''yes''" and "\<forall>k. \<not> broken e k"
  shows "raised (archive_handle e years False True il db) = None
         \<and> (\<forall>k. db_after (archive_handle e years False True il db) k =
                (if k = UserLogs \<and> \<not> il then db k
                 else qs_update (archive_filter c) (archive_fields (now_stamp e)) (db k)))"
proof -
  let ?cs = "archive_count_records c il db"
  let ?out = "[Banner, Summary ?cs] @ [AboutTo (total ?cs)] @ [Heading]"
  from archive_records_returns [OF assms(5)] obtain db' out' cs'
    where run: "archive_records (broken e) c (now_stamp e) il (db, ?out) = ((db', out'), Inr cs')"
    by blast
  have "archive_handle e years False True il db =
          \<lparr>db_after = db', stdout = out' @ [Complete (total cs')], raised = None\<rparr>"
    using assms(1-4) run
    by (simp add: archive_handle_def Let_def confirm_archiving_def)
  then show ?thesis
    using archive_records_tables [OF run] by simp
qed

lemma archive_handle_nothing:
  assumes "1 \<le> years" and "minus_days (now_cutoff e) (365 * years) = Inr c"
    and "total (archive_count_records c il db) = 0"
  shows "archive_handle e years False True il db =
           \<lparr>db_after = db,
            stdout = [Banner, Summary (archive_count_records c il db), NoRecords, Cancelled],
            raised = None\<rparr>"
  using assms
  by (simp add: archive_handle_def Let_def confirm_archiving_def)

lemma archive_handle_declined:
  assumes "1 \<le> years" and "minus_days (now_cutoff e) (365 * years) = Inr c"
    and "total (archive_count_records c il db) \<noteq> 0"
    and "lower (answer e) \<noteq> ''yes''"
  shows "archive_handle e years False True il db =
           \<lparr>db_after = db,
            stdout = [Banner, Summary (archive_count_records c il db),
                      AboutTo (total (archive_count_records c il db)), Cancelled],
            raised = None\<rparr>"
  using assms
  by (simp add: archive_handle_def Let_def confirm_archiving_def)

text \<open>A positive preview total means that the update of some kind changes its table.\<close>

lemma archive_total_positive:
  assumes "total (archive_count_records c il db) \<noteq> 0"
  shows "\<exists>k. \<not> (k = UserLogs \<and> \<not> il) \<and> qs_count (archive_filter c) (db k) \<noteq> 0"
proof (rule ccontr)
  assume "\<not> ?thesis"
  then have z: "\<And>k. \<not> (k = UserLogs \<and> \<not> il) \<Longrightarrow> qs_count (archive_filter c) (db k) = 0"
    by blast
  have "total (archive_count_records c il db) = 0"
    by (simp add: archive_count_records_def Let_def z)
  with assms show False by simp
qed

lemma archive_confirmed_changes:
  assumes "1 \<le> years" and "minus_days (now_cutoff e) (365 * years) = Inr c"
    and "total (archive_count_records c il db) \<noteq> 0"
    and "lower (answer e) = ''yes''" and "\<forall>k. \<not> broken e k"
  shows "db_after (archive_handle e years False True il db) \<noteq> db"
proof
  assume same: "db_after (archive_handle e years False True il db) = db"
  from archive_total_positive [OF assms(3)] obtain k
    where k: "\<not> (k = UserLogs \<and> \<not> il)" "qs_count (archive_filter c) (db k) \<noteq> 0"
    by blast
  have "db_after (archive_handle e years False True il db) k =
          (if k = UserLogs \<and> \<not> il then db k
           else qs_update (archive_filter c) (archive_fields (now_stamp e)) (db k))"
    using archive_handle_confirmed [OF assms] by blast
  then have "db_after (archive_handle e years False True il db) k =
          qs_update (archive_filter c) (archive_fields (now_stamp e)) (db k)"
    by (simp only: k(1) if_False)
  with same have "qs_update (archive_filter c) (archive_fields (now_stamp e)) (db k) = db k"
    by simp
  moreover have "qs_update (archive_filter c) (archive_fields (now_stamp e)) (db k) \<noteq> db k"
    using k(2) by (rule qs_update_some) (rule archive_fields_changes)
  ultimately show False by simp
qed


subsection \<open>The restore command as a whole\<close>

lemma restore_handle_cases:
  obtains
    (refused) err where
      "restore_handle strptime e dry_run execute ra rt dfs dts db =
         \<lparr>db_after = db, stdout = [], raised = Some err\<rparr>"
      "err = CommandError MustChooseSelector
         \<longleftrightarrow> dry_run \<noteq> execute \<and> \<not> ra \<and> \<not> truthy rt \<and> \<not> truthy dfs"
  | (stopped) out where
      "restore_handle strptime e dry_run execute ra rt dfs dts db =
         \<lparr>db_after = db, stdout = out, raised = None\<rparr>"
  | (failed) df dt out db' out' err where
      "restore_records (broken e) ra rt df dt (db, out) = ((db', out'), Inl err)"
      "restore_handle strptime e dry_run execute ra rt dfs dts db =
         \<lparr>db_after = db', stdout = out', raised = Some err\<rparr>"
  | (finished) df dt out db' out' d n where
      "restore_records (broken e) ra rt df dt (db, out) = ((db', out'), Inr d)"
      "restore_handle strptime e dry_run execute ra rt dfs dts db =
         \<lparr>db_after = db', stdout = out' @ [Complete n], raised = None\<rparr>"
proof (cases "(\<not> dry_run \<and> \<not> execute) \<or> (dry_run \<and> execute)
              \<or> (\<not> ra \<and> \<not> truthy rt \<and> \<not> truthy dfs)")
  case True
  then have "restore_handle strptime e dry_run execute ra rt dfs dts db =
               \<lparr>db_after = db, stdout = [],
                raised = Some (CommandError
                  (if \<not> dry_run \<and> \<not> execute then MustChooseMode
                   else if dry_run \<and> execute then BothModes else MustChooseSelector))\<rparr>"
    by (auto simp: restore_handle_def)
  then show ?thesis
    by (rule refused) (use True in auto)
next
  case valid: False
  have bad_date: "\<And>msg s err. parse_date strptime msg s = Inl err \<Longrightarrow> err = CommandError msg"
  proof -
    fix msg s err
    assume "parse_date strptime msg s = Inl err"
    then show "err = CommandError msg"
      by (cases s) (auto split: if_splits option.splits)
  qed
  show ?thesis
  proof (cases "parse_date strptime InvalidDateFrom dfs")
    case (Inl err)
    have "restore_handle strptime e dry_run execute ra rt dfs dts db =
            \<lparr>db_after = db, stdout = [], raised = Some err\<rparr>"
      using valid Inl by (auto simp: restore_handle_def)
    then show ?thesis
      by (rule refused) (use valid bad_date [OF Inl] in auto)
  next
    case from_ok: (Inr df)
    show ?thesis
    proof (cases "parse_date strptime InvalidDateTo dts")
      case (Inl err)
      have "restore_handle strptime e dry_run execute ra rt dfs dts db =
              \<lparr>db_after = db, stdout = [], raised = Some err\<rparr>"
        using valid from_ok Inl by (auto simp: restore_handle_def)
      then show ?thesis
        by (rule refused) (use valid bad_date [OF Inl] in auto)
    next
      case to_ok: (Inr dt)
      let ?cs = "restore_count_records ra rt df dt db"
      show ?thesis
      proof (cases dry_run)
        case True
        with valid from_ok to_ok show ?thesis
          by (intro stopped) (auto simp: restore_handle_def Let_def)
      next
        case False
        obtain ok asked where conf: "confirm_restoration ?cs (answer e) = (ok, asked)"
          by (cases "confirm_restoration ?cs (answer e)") blast
        show ?thesis
        proof (cases ok)
          case False
          with valid from_ok to_ok \<open>\<not> dry_run\<close> conf show ?thesis
            by (intro stopped) (auto simp: restore_handle_def Let_def)
        next
          case True
          let ?out = "[Banner, Summary ?cs] @ asked @ [Heading]"
          obtain db' out' res where
            run: "restore_records (broken e) ra rt df dt (db, ?out) = ((db', out'), res)"
            by (metis surj_pair)
          show ?thesis
          proof (cases res)
            case (Inl err)
            with valid from_ok to_ok \<open>\<not> dry_run\<close> conf True run
            show ?thesis
              by (intro failed [of df dt ?out db' out' err]) (auto simp: restore_handle_def Let_def)
          next
            case (Inr d)
            with run have run': "restore_records (broken e) ra rt df dt (db, ?out) = ((db', out'), Inr d)"
              by simp
            from restore_records_total_key [OF run'] obtain n
              where n: "dict_get d ''total'' = Inr n" by blast
            from valid from_ok to_ok \<open>\<not> dry_run\<close> conf True run' n
            show ?thesis
              by (intro finished [of df dt ?out db' out' d n]) (auto simp: restore_handle_def Let_def)
          qed
        qed
      qed
    qed
  qed
qed

lemma restore_handle_error:
  assumes "raised (restore_handle strptime e dry_run execute ra rt dfs dts db) \<noteq> None"
  shows "db_after (restore_handle strptime e dry_run execute ra rt dfs dts db) = db"
proof (cases rule: restore_handle_cases [of strptime e dry_run execute ra rt dfs dts db])
  case (refused err)
  then show ?thesis by simp
next
  case (stopped out)
  then show ?thesis by simp
next
  case (failed df dt out db' out' err)
  then show ?thesis using restore_records_rollback [OF failed(1)] by simp
next
  case (finished df dt out db' out' d n)
  then show ?thesis using assms by simp
qed

lemma restore_handle_shape:
  "db_after (restore_handle strptime e dry_run execute ra rt dfs dts db) = db
   \<or> (\<exists>df dt. \<forall>k. db_after (restore_handle strptime e dry_run execute ra rt dfs dts db) k =
              (if ra \<or> rt = Some (type_name k)
               then qs_update (get_queryset df dt) restore_fields (db k) else db k))"
proof (cases rule: restore_handle_cases [of strptime e dry_run execute ra rt dfs dts db])
  case (refused err)
  then show ?thesis by simp
next
  case (stopped out)
  then show ?thesis by simp
next
  case (failed df dt out db' out' err)
  then show ?thesis using restore_records_rollback [OF failed(1)] by simp
next
  case (finished df dt out db' out' d n)
  have "\<forall>k. db' k = (if ra \<or> rt = Some (type_name k)
                then qs_update (get_queryset df dt) restore_fields (db k) else db k)"
    using restore_records_tables [OF finished(1)] by blast
  then show ?thesis unfolding finished(2) by auto
qed

lemma restore_handle_dry_run:
  "db_after (restore_handle strptime e True execute ra rt dfs dts db) = db"
  unfolding restore_handle_def Let_def
  by (simp split: sum.splits)

lemma restore_handle_confirmed:
  assumes "ra \<or> truthy rt \<or> truthy dfs"
    and "parse_date strptime InvalidDateFrom dfs = Inr df"
    and "parse_date strptime InvalidDateTo dts = Inr dt"
    and "total (restore_count_records ra rt df dt db) \<noteq> 0"
    and "lower (answer e) = ''yes''"
    and "\<forall>k. (ra \<or> rt = Some (type_name k)) \<longrightarrow> \<not> broken e k"
  shows "raised (restore_handle strptime e False True ra rt dfs dts db) = None
         \<and> (\<forall>k. db_after (restore_handle strptime e False True ra rt dfs dts db) k =
                (if ra \<or> rt = Some (type_name k)
                 then qs_update (get_queryset df dt) restore_fields (db k) else db k))"
proof -
  let ?cs = "restore_count_records ra rt df dt db"
  let ?out = "[Banner, Summary ?cs] @ [AboutTo (total ?cs)] @ [Heading]"
  from restore_records_returns [OF assms(6)] obtain db' out' d
    where run: "restore_records (broken e) ra rt df dt (db, ?out) = ((db', out'), Inr d)"
    by blast
  from restore_records_total_key [OF run] obtain n
    where n: "dict_get d ''total'' = Inr n" by blast
  have "restore_handle strptime e False True ra rt dfs dts db =
          \<lparr>db_after = db', stdout = out' @ [Complete n], raised = None\<rparr>"
    using assms(1-5) run n
    by (auto simp add: restore_handle_def Let_def confirm_restoration_def)
  then show ?thesis
    using restore_records_tables [OF run] by simp
qed

lemma restore_handle_nothing:
  assumes "ra \<or> truthy rt \<or> truthy dfs"
    and "parse_date strptime InvalidDateFrom dfs = Inr df"
    and "parse_date strptime InvalidDateTo dts = Inr dt"
    and "total (restore_count_records ra rt df dt db) = 0"
  shows "restore_handle strptime e False True ra rt dfs dts db =
           \<lparr>db_after = db,
            stdout = [Banner, Summary (restore_count_records ra rt df dt db), NoRecords, Cancelled],
            raised = None\<rparr>"
  using assms
  by (auto simp add: restore_handle_def Let_def confirm_restoration_def)

lemma restore_handle_declined:
  assumes "ra \<or> truthy rt \<or> truthy dfs"
    and "parse_date strptime InvalidDateFrom dfs = Inr df"
    and "parse_date strptime InvalidDateTo dts = Inr dt"
    and "total (restore_count_records ra rt df dt db) \<noteq> 0"
    and "lower (answer e) \<noteq> ''yes''"
  shows "restore_handle strptime e False True ra rt dfs dts db =
           \<lparr>db_after = db,
            stdout = [Banner, Summary (restore_count_records ra rt df dt db),
                      AboutTo (total (restore_count_records ra rt df dt db)), Cancelled],
            raised = None\<rparr>"
  using assms
  by (auto simp add: restore_handle_def Let_def confirm_restoration_def)

lemma restore_total_positive:
  assumes "total (restore_count_records ra rt df dt db) \<noteq> 0"
  shows "\<exists>k. (ra \<or> rt = Some (type_name k)) \<and> qs_count (get_queryset df dt) (db k) \<noteq> 0"
proof (rule ccontr)
  assume "\<not> ?thesis"
  then have z: "\<And>k. ra \<or> rt = Some (type_name k) \<Longrightarrow> qs_count (get_queryset df dt) (db k) = 0"
    by blast
  have "total (restore_count_records ra rt df dt db) = 0"
    using z [of Assessments] z [of Reports] z [of Certificates] z [of FloodActivities]
      z [of UserLogs]
    by (auto simp: restore_count_records_def Let_def)
  with assms show False by simp
qed

lemma restore_confirmed_changes:
  assumes "ra \<or> truthy rt \<or> truthy dfs"
    and "parse_date strptime InvalidDateFrom dfs = Inr df"
    and "parse_date strptime InvalidDateTo dts = Inr dt"
    and "total (restore_count_records ra rt df dt db) \<noteq> 0"
    and "lower (answer e) = ''yes''"
    and "\<forall>k. (ra \<or> rt = Some (type_name k)) \<longrightarrow> \<not> broken e k"
  shows "db_after (restore_handle strptime e False True ra rt dfs dts db) \<noteq> db"
proof
  assume same: "db_after (restore_handle strptime e False True ra rt dfs dts db) = db"
  from restore_total_positive [OF assms(4)] obtain k
    where k: "ra \<or> rt = Some (type_name k)" "qs_count (get_queryset df dt) (db k) \<noteq> 0"
    by blast
  have "db_after (restore_handle strptime e False True ra rt dfs dts db) k =
          (if ra \<or> rt = Some (type_name k)
           then qs_update (get_queryset df dt) restore_fields (db k) else db k)"
    using restore_handle_confirmed [OF assms] by blast
  then have "db_after (restore_handle strptime e False True ra rt dfs dts db) k =
          qs_update (get_queryset df dt) restore_fields (db k)"
    by (simp only: k(1) if_True)
  with same have "qs_update (get_queryset df dt) restore_fields (db k) = db k"
    by simp
  moreover have "qs_update (get_queryset df dt) restore_fields (db k) \<noteq> db k"
    using k(2) by (rule qs_update_some) (rule restore_fields_changes)
  ultimately show False by simp
qed


text \<open>A confirmed run whose store works, whatever the preview total.\<close>

lemma archive_count_zero:
  assumes "total (archive_count_records c il db) = 0" and "\<not> (k = UserLogs \<and> \<not> il)"
  shows "qs_count (archive_filter c) (db k) = 0"
  using assms
  by (cases k) (auto simp: archive_count_records_def Let_def split: if_splits)

lemma archive_handle_yes_tables:
  assumes "1 \<le> years" and "minus_days (now_cutoff e) (365 * years) = Inr c"
    and "lower (answer e) = ''yes''" and "\<forall>k. \<not> broken e k"
  shows "db_after (archive_handle e years False True il db) k =
           (if k = UserLogs \<and> \<not> il then db k
            else qs_update (archive_filter c) (archive_fields (now_stamp e)) (db k))"
proof (cases "total (archive_count_records c il db) = 0")
  case True
  have "db_after (archive_handle e years False True il db) k = db k"
    using archive_handle_nothing [OF assms(1,2) True] by simp
  moreover have "\<not> (k = UserLogs \<and> \<not> il) \<Longrightarrow>
      qs_update (archive_filter c) (archive_fields (now_stamp e)) (db k) = db k"
    using archive_count_zero [OF True] by (intro qs_update_none) blast
  ultimately show ?thesis by auto
next
  case False
  then show ?thesis
    using archive_handle_confirmed [OF assms(1,2) False assms(3,4)] by blast
qed

lemma archive_handle_yes_raised:
  assumes "1 \<le> years" and "minus_days (now_cutoff e) (365 * years) = Inr c"
    and "lower (answer e) = ''yes''" and "\<forall>k. \<not> broken e k"
  shows "raised (archive_handle e years False True il db) = None"
proof (cases "total (archive_count_records c il db) = 0")
  case True
  then show ?thesis using archive_handle_nothing [OF assms(1,2) True] by simp
next
  case False
  then show ?thesis
    using archive_handle_confirmed [OF assms(1,2) False assms(3,4)] by blast
qed

lemma restore_count_zero:
  assumes "total (restore_count_records ra rt df dt db) = 0" and "ra \<or> rt = Some (type_name k)"
  shows "qs_count (get_queryset df dt) (db k) = 0"
  using assms
  by (cases k) (auto simp: restore_count_records_def Let_def split: if_splits)

lemma restore_handle_yes_tables:
  assumes "ra \<or> truthy rt \<or> truthy dfs"
    and "parse_date strptime InvalidDateFrom dfs = Inr df"
    and "parse_date strptime InvalidDateTo dts = Inr dt"
    and "lower (answer e) = ''yes''"
    and "\<forall>k. (ra \<or> rt = Some (type_name k)) \<longrightarrow> \<not> broken e k"
  shows "db_after (restore_handle strptime e False True ra rt dfs dts db) k =
           (if ra \<or> rt = Some (type_name k)
            then qs_update (get_queryset df dt) restore_fields (db k) else db k)"
proof (cases "total (restore_count_records ra rt df dt db) = 0")
  case True
  have "db_after (restore_handle strptime e False True ra rt dfs dts db) k = db k"
    using restore_handle_nothing [OF assms(1-3) True] by simp
  moreover have "ra \<or> rt = Some (type_name k) \<Longrightarrow>
      qs_update (get_queryset df dt) restore_fields (db k) = db k"
    using restore_count_zero [OF True] by (intro qs_update_none) blast
  ultimately show ?thesis by auto
next
  case False
  then show ?thesis
    using restore_handle_confirmed [OF assms(1-3) False assms(4,5)] by blast
qed

lemma restore_handle_yes_raised:
  assumes "ra \<or> truthy rt \<or> truthy dfs"
    and "parse_date strptime InvalidDateFrom dfs = Inr df"
    and "parse_date strptime InvalidDateTo dts = Inr dt"
    and "lower (answer e) = ''yes''"
    and "\<forall>k. (ra \<or> rt = Some (type_name k)) \<longrightarrow> \<not> broken e k"
  shows "raised (restore_handle strptime e False True ra rt dfs dts db) = None"
proof (cases "total (restore_count_records ra rt df dt db) = 0")
  case True
  then show ?thesis using restore_handle_nothing [OF assms(1-3) True] by simp
next
  case False
  then show ?thesis
    using restore_handle_confirmed [OF assms(1-3) False assms(4,5)] by blast
qed

section \<open>Transactions\<close>

text \<open>
  C1, as the code has it. \<^verbatim>\<open>@transaction.atomic\<close> decorates \<^verbatim>\<open>_archive_records\<close> and
  \<^verbatim>\<open>_restore_records\<close> as a whole, so the five bulk updates of a run form one transaction:
  when the mutating step raises, every table is as it was before the step, also the
  tables of the kinds updated before the failure; and a run of either command that ends
  with an error leaves every table unchanged.
\<close>

theorem run_is_one_transaction:
  "(snd (archive_records brk c n il (db, out)) = Inl err \<longrightarrow>
      fst (fst (archive_records brk c n il (db, out))) = db)
   \<and> (snd (restore_records brk ra rt df dt (db, out)) = Inl err' \<longrightarrow>
      fst (fst (restore_records brk ra rt df dt (db, out))) = db)
   \<and> (raised (archive_handle e years dry_run execute il db) \<noteq> None \<longrightarrow>
      db_after (archive_handle e years dry_run execute il db) = db)
   \<and> (raised (restore_handle strptime e dry_run execute ra rt dfs dts db) \<noteq> None \<longrightarrow>
      db_after (restore_handle strptime e dry_run execute ra rt dfs dts db) = db)"
proof (intro conjI impI)
  assume "snd (archive_records brk c n il (db, out)) = Inl err"
  then have "archive_records brk c n il (db, out) =
      ((fst (fst (archive_records brk c n il (db, out))),
        snd (fst (archive_records brk c n il (db, out)))), Inl err)"
    by (metis prod.collapse)
  then show "fst (fst (archive_records brk c n il (db, out))) = db"
    by (rule archive_records_rollback)
next
  assume "snd (restore_records brk ra rt df dt (db, out)) = Inl err'"
  then have "restore_records brk ra rt df dt (db, out) =
      ((fst (fst (restore_records brk ra rt df dt (db, out))),
        snd (fst (restore_records brk ra rt df dt (db, out)))), Inl err')"
    by (metis prod.collapse)
  then show "fst (fst (restore_records brk ra rt df dt (db, out))) = db"
    by (rule restore_records_rollback)
next
  assume "raised (archive_handle e years dry_run execute il db) \<noteq> None"
  then show "db_after (archive_handle e years dry_run execute il db) = db"
    by (rule archive_handle_error)
next
  assume "raised (restore_handle strptime e dry_run execute ra rt dfs dts db) \<noteq> None"
  then show "db_after (restore_handle strptime e dry_run execute ra rt dfs dts db) = db"
    by (rule restore_handle_error)
qed

theorem run_is_one_transaction_witness:
  "snd (archive_records reports_fail 1000 1007 False (sample_db, [])) = Inl (DatabaseError Reports)
   \<and> fst (fst (archive_records reports_fail 1000 1007 False (sample_db, []))) = sample_db
   \<and> snd (restore_records reports_fail True None None None (sample_db, [])) = Inl (DatabaseError Reports)
   \<and> fst (fst (restore_records reports_fail True None None None (sample_db, []))) = sample_db
   \<and> raised (archive_handle failing_env 1 False True False sample_db) \<noteq> None
   \<and> db_after (archive_handle failing_env 1 False True False sample_db) = sample_db
   \<and> raised (restore_handle sample_strptime failing_env False True True None None None sample_db) \<noteq> None
   \<and> db_after (restore_handle sample_strptime failing_env False True True None None None sample_db) = sample_db"
proof -
  have 1: "snd (archive_records reports_fail 1000 1007 False (sample_db, [])) = Inl (DatabaseError Reports)"
    by code_simp
  have 2: "snd (restore_records reports_fail True None None None (sample_db, [])) = Inl (DatabaseError Reports)"
    by code_simp
  have 3: "raised (archive_handle failing_env 1 False True False sample_db) \<noteq> None"
    by code_simp
  have 4: "raised (restore_handle sample_strptime failing_env False True True None None None sample_db) \<noteq> None"
    by code_simp
  show ?thesis
    using 1 2 3 4
      run_is_one_transaction [of reports_fail 1000 1007 False sample_db "[]" "DatabaseError Reports"
        True None None None "DatabaseError Reports" failing_env 1 False True sample_strptime None None]
    by simp
qed

text \<open>
  C1, as it is stated, fails: with the store failing on the report table, the assessment
  table was updated by the body of \<^verbatim>\<open>_archive_records\<close> before the failure, and the run
  ends with that update undone.
\<close>

theorem per_kind_commit_counterexample:
  "raised (archive_handle failing_env 1 False True False sample_db) = Some (DatabaseError Reports)
   \<and> fst (fst (archive_records_body reports_fail 1000 31536000001007 False (sample_db, []))) Assessments
       = [archive_fields 31536000001007 old_row, recent_row, shelved_row]
   \<and> db_after (archive_handle failing_env 1 False True False sample_db) Assessments
       = [old_row, recent_row, shelved_row]"
  by code_simp


section \<open>What an archive run changes\<close>

text \<open>
  C2, as the code has it. After a confirmed archive execute run whose store works, for
  every kind \<open>K\<close> that takes part (each of the four kinds of \<^verbatim>\<open>maps/models.py\<close>, and the
  user logs only when \<^verbatim>\<open>--include-logs\<close> is given): the cutoff is the first clock reading
  minus \<open>years\<close> times 365 days; a row of \<open>K\<close> with a timestamp strictly before the cutoff
  and not archived has \<open>is_archived\<close> set and \<open>archived_at\<close> set to an instant not before
  that first reading (the clock not running backwards), nothing else of it changed; every
  other row of \<open>K\<close> is unchanged. Without \<^verbatim>\<open>--include-logs\<close> the user logs are unchanged.
\<close>

theorem archive_run_effect:
  assumes "1 \<le> years"
    and "minus_days (now_cutoff e) (365 * years) = Inr cutoff"
    and "lower (answer e) = ''yes''"
    and "\<forall>k. \<not> broken e k"
    and "now_cutoff e \<le> now_stamp e"
  shows "cutoff = now_cutoff e - years * 365 * 86400000000
    \<and> raised (archive_handle e years False True il db) = None
    \<and> (K \<noteq> UserLogs \<or> il \<longrightarrow>
         length (db_after (archive_handle e years False True il db) K) = length (db K)
         \<and> (\<forall>i<length (db K).
              if timestamp (db K ! i) < cutoff \<and> \<not> is_archived (db K ! i)
              then \<exists>t. now_cutoff e \<le> t
                     \<and> db_after (archive_handle e years False True il db) K ! i
                         = (db K ! i)\<lparr>is_archived := True, archived_at := Some t\<rparr>
              else db_after (archive_handle e years False True il db) K ! i = db K ! i))
    \<and> (\<not> il \<longrightarrow> db_after (archive_handle e years False True il db) UserLogs = db UserLogs)"
proof (intro conjI impI)
  show "cutoff = now_cutoff e - years * 365 * 86400000000"
    using assms(2) by (auto simp: minus_days_def split: if_splits)
  show "raised (archive_handle e years False True il db) = None"
    using assms(1-4) by (rule archive_handle_yes_raised)
  show "db_after (archive_handle e years False True il db) UserLogs = db UserLogs" if "\<not> il"
    using archive_handle_yes_tables [OF assms(1-4), of il db UserLogs] that by simp
next
  assume part: "K \<noteq> UserLogs \<or> il"
  have tab: "db_after (archive_handle e years False True il db) K =
               qs_update (archive_filter cutoff) (archive_fields (now_stamp e)) (db K)"
    using archive_handle_yes_tables [OF assms(1-4), of il db K] part by auto
  show "length (db_after (archive_handle e years False True il db) K) = length (db K)"
    unfolding tab by (rule length_qs_update)
  show "\<forall>i<length (db K).
          if timestamp (db K ! i) < cutoff \<and> \<not> is_archived (db K ! i)
          then \<exists>t. now_cutoff e \<le> t
                 \<and> db_after (archive_handle e years False True il db) K ! i
                     = (db K ! i)\<lparr>is_archived := True, archived_at := Some t\<rparr>
          else db_after (archive_handle e years False True il db) K ! i = db K ! i"
    unfolding tab using assms(5)
    by (auto simp: nth_qs_update archive_filter_def archive_fields_def)
qed

theorem archive_run_effect_witness:
  "(\<exists>t. now_cutoff sample_env \<le> t
        \<and> db_after (archive_handle sample_env 1 False True False sample_db) Assessments ! 0
            = old_row\<lparr>is_archived := True, archived_at := Some t\<rparr>)
   \<and> db_after (archive_handle sample_env 1 False True False sample_db) Assessments ! 1 = recent_row
   \<and> db_after (archive_handle sample_env 1 False True False sample_db) Assessments ! 2 = shelved_row
   \<and> db_after (archive_handle sample_env 1 False True False sample_db) UserLogs = [old_row]"
proof -
  have h: "(1::int) \<le> 1" "minus_days (now_cutoff sample_env) (365 * 1) = Inr 1000"
    "lower (answer sample_env) = ''yes''" "\<forall>k. \<not> broken sample_env k"
    "now_cutoff sample_env \<le> now_stamp sample_env"
    by (simp_all add: sample_env_def minus_days_def lower_def lower_char_def
          char_of_eq_iff take_bit_eq_mod)
  note t = archive_run_effect [OF h, where il = False and db = sample_db and K = Assessments]
  have a: "\<forall>i<length (sample_db Assessments).
          if timestamp (sample_db Assessments ! i) < 1000 \<and> \<not> is_archived (sample_db Assessments ! i)
          then \<exists>t. now_cutoff sample_env \<le> t
                 \<and> db_after (archive_handle sample_env 1 False True False sample_db) Assessments ! i
                     = (sample_db Assessments ! i)\<lparr>is_archived := True, archived_at := Some t\<rparr>
          else db_after (archive_handle sample_env 1 False True False sample_db) Assessments ! i
                 = sample_db Assessments ! i"
    using t by blast
  have u: "db_after (archive_handle sample_env 1 False True False sample_db) UserLogs = sample_db UserLogs"
    using t by blast
  have 0: "\<exists>t. now_cutoff sample_env \<le> t
        \<and> db_after (archive_handle sample_env 1 False True False sample_db) Assessments ! 0
            = old_row\<lparr>is_archived := True, archived_at := Some t\<rparr>"
    using a [rule_format, of 0] by (simp add: old_row_def)
  have 1: "db_after (archive_handle sample_env 1 False True False sample_db) Assessments ! 1 = recent_row"
    using a [rule_format, of 1] by (simp add: recent_row_def)
  have 2: "db_after (archive_handle sample_env 1 False True False sample_db) Assessments ! 2 = shelved_row"
    using a [rule_format, of 2] by (simp add: shelved_row_def)
  show ?thesis using 0 1 2 u by simp
qed

text \<open>
  C2, as it is stated for every kind, fails on the user logs: a run without
  \<^verbatim>\<open>--include-logs\<close> completes and archives the old assessment, and the user-log row, older
  than the cutoff 1000 and not archived, stays as it was.
\<close>

theorem user_logs_left_out_counterexample:
  "minus_days (now_cutoff sample_env) (365 * 1) = Inr 1000
   \<and> raised (archive_handle sample_env 1 False True False sample_db) = None
   \<and> last (stdout (archive_handle sample_env 1 False True False sample_db)) = Complete 2
   \<and> timestamp (hd (sample_db UserLogs)) < 1000
   \<and> is_archived (hd (sample_db UserLogs)) = False
   \<and> is_archived (hd (db_after (archive_handle sample_env 1 False True False sample_db) UserLogs)) = False"
  by code_simp


section \<open>Validation of the restore selector\<close>

text \<open>
  The selector check of the restore command looks at \<^verbatim>\<open>--all\<close>, \<^verbatim>\<open>--type\<close> and
  \<^verbatim>\<open>--date-from\<close> only: with a valid mode the command is refused for want of a selector
  exactly when none of these three is given (an empty string counting as not given).
\<close>

lemma restore_records_error:
  assumes "restore_records brk ra rt df dt s = (s', Inl err)"
  shows "\<exists>k. err = DatabaseError k"
proof -
  have blk: "\<And>name k s d s' err.
      restore_block brk ra rt df dt name k s d = (s', Inl err) \<Longrightarrow> err = DatabaseError k"
    by (auto simp: restore_block_def update_stmt_def and_then_def split: if_splits)
  from assms obtain s'' where
    "restore_records_body brk ra rt df dt s = (s'', Inl err)"
    by (auto simp: restore_records_def transaction_atomic_def split: prod.splits sum.splits)
  then show ?thesis
    unfolding restore_records_body_def and_then_def
    by (auto split: prod.splits sum.splits dest: blk)
qed

lemma selector_check:
  "raised (restore_handle strptime e dry_run execute ra rt dfs dts db)
     = Some (CommandError MustChooseSelector)
   \<longleftrightarrow> dry_run \<noteq> execute \<and> \<not> ra \<and> \<not> truthy rt \<and> \<not> truthy dfs"
proof -
  have given: "raised (restore_handle strptime e dry_run execute ra rt dfs dts db)
                = Some (CommandError MustChooseSelector)"
    if "dry_run \<noteq> execute \<and> \<not> ra \<and> \<not> truthy rt \<and> \<not> truthy dfs"
    using that by (auto simp: restore_handle_def)
  then have other: ?thesis
    if "raised (restore_handle strptime e dry_run execute ra rt dfs dts db)
          \<noteq> Some (CommandError MustChooseSelector)"
    using that by blast
  show ?thesis
  proof (cases rule: restore_handle_cases [of strptime e dry_run execute ra rt dfs dts db])
    case (refused err)
    then show ?thesis by simp
  next
    case (stopped out)
    then show ?thesis by (intro other) simp
  next
    case (failed df dt out db' out' err)
    from restore_records_error [OF failed(1)] obtain k where "err = DatabaseError k"
      by blast
    with failed(2) show ?thesis by (intro other) simp
  next
    case (finished df dt out db' out' d n)
    then show ?thesis by (intro other) simp
  qed
qed

text \<open>
  C3 at the failing input: an execute invocation whose only selector option is
  \<^verbatim>\<open>--date-to=2023-12-31\<close> is refused with the message that a selector is missing,
  whatever the date parser, the environment and the store.
\<close>

theorem date_to_alone_is_refused:
  "restore_handle strptime e False True False None None (Some ''2023-12-31'') db
     = \<lparr>db_after = db, stdout = [], raised = Some (CommandError MustChooseSelector)\<rparr>"
  by (simp add: restore_handle_def)

section \<open>Dry run\<close>

text \<open>
  C4. With \<^verbatim>\<open>--dry-run\<close>, whatever the other options, the environment and the store, both
  commands end with every table as it was, so that no row has its \<open>is_archived\<close>,
  \<open>archived_at\<close> or \<open>timestamp\<close> changed; and a valid preview prints the banner, the counts
  and the closing message and returns without an error.
\<close>

theorem dry_run_never_mutates:
  "db_after (archive_handle e years True execute il db) = db
   \<and> db_after (restore_handle strptime e True execute ra rt dfs dts db) = db
   \<and> (1 \<le> years \<and> minus_days (now_cutoff e) (365 * years) = Inr c \<longrightarrow>
        archive_handle e years True False il db
          = \<lparr>db_after = db, stdout = [Banner, Summary (archive_count_records c il db), DryRunComplete],
             raised = None\<rparr>)
   \<and> ((ra \<or> truthy rt \<or> truthy dfs) \<and> parse_date strptime InvalidDateFrom dfs = Inr df
        \<and> parse_date strptime InvalidDateTo dts = Inr dt \<longrightarrow>
        restore_handle strptime e True False ra rt dfs dts db
          = \<lparr>db_after = db, stdout = [Banner, Summary (restore_count_records ra rt df dt db), DryRunComplete],
             raised = None\<rparr>)"
proof (intro conjI impI)
  show "db_after (archive_handle e years True execute il db) = db"
    by (rule archive_handle_dry_run)
  show "db_after (restore_handle strptime e True execute ra rt dfs dts db) = db"
    by (rule restore_handle_dry_run)
  show "archive_handle e years True False il db
          = \<lparr>db_after = db, stdout = [Banner, Summary (archive_count_records c il db), DryRunComplete],
             raised = None\<rparr>"
    if "1 \<le> years \<and> minus_days (now_cutoff e) (365 * years) = Inr c"
    using that by (simp add: archive_handle_def Let_def)
  show "restore_handle strptime e True False ra rt dfs dts db
          = \<lparr>db_after = db, stdout = [Banner, Summary (restore_count_records ra rt df dt db), DryRunComplete],
             raised = None\<rparr>"
    if "(ra \<or> truthy rt \<or> truthy dfs) \<and> parse_date strptime InvalidDateFrom dfs = Inr df
        \<and> parse_date strptime InvalidDateTo dts = Inr dt"
    using that by (auto simp add: restore_handle_def Let_def)
qed

theorem dry_run_never_mutates_witness:
  "db_after (archive_handle sample_env 1 True False True sample_db) = sample_db
   \<and> db_after (restore_handle sample_strptime sample_env True False True None None None sample_db)
       = sample_db
   \<and> stdout (archive_handle sample_env 1 True False True sample_db)
       = [Banner, Summary \<lparr>assessments = 1, reports = 1, certificates = 0, flood_activities = 0,
                            user_logs = 1, total = 3\<rparr>, DryRunComplete]
   \<and> stdout (restore_handle sample_strptime sample_env True False True None None None sample_db)
       = [Banner, Summary \<lparr>assessments = 1, reports = 1, certificates = 0, flood_activities = 0,
                            user_logs = 0, total = 2\<rparr>, DryRunComplete]"
proof -
  have h: "(1::int) \<le> 1 \<and> minus_days (now_cutoff sample_env) (365 * 1) = Inr 1000"
    by (simp add: sample_env_def minus_days_def)
  have g: "(True \<or> truthy None \<or> truthy None)
      \<and> parse_date sample_strptime InvalidDateFrom None = Inr None
      \<and> parse_date sample_strptime InvalidDateTo None = Inr None"
    by simp
  have ca: "archive_count_records 1000 True sample_db
      = \<lparr>assessments = 1, reports = 1, certificates = 0, flood_activities = 0,
         user_logs = 1, total = 3\<rparr>"
    by code_simp
  have cr: "restore_count_records True None None None sample_db
      = \<lparr>assessments = 1, reports = 1, certificates = 0, flood_activities = 0,
         user_logs = 0, total = 2\<rparr>"
    by code_simp
  note t = dry_run_never_mutates [where e = sample_env and years = 1 and execute = False
      and il = True and db = sample_db and strptime = sample_strptime and ra = True
      and rt = None and dfs = None and dts = None and c = 1000 and df = None and dt = None]
  show ?thesis
    using t h g by (simp add: ca cr)
qed


section \<open>The confirmation gate\<close>

text \<open>
  C5. In execute mode, once the options are valid: when the previewed total is 0 the
  command prints that there is nothing to do and returns with no table changed, without
  looking at the response; when the total is positive and the response, put in lower
  case, is not \<open>yes\<close>, the command returns normally with no table changed; and when the
  total is positive and the store works, the tables change exactly when the response in
  lower case is \<open>yes\<close>. This holds for the archive and for the restore command.
\<close>

theorem confirmation_gate:
  "(1 \<le> years \<and> minus_days (now_cutoff e) (365 * years) = Inr c \<longrightarrow>
      (total (archive_count_records c il db) = 0 \<longrightarrow>
         archive_handle e years False True il db
           = \<lparr>db_after = db,
              stdout = [Banner, Summary (archive_count_records c il db), NoRecords, Cancelled],
              raised = None\<rparr>)
      \<and> (total (archive_count_records c il db) \<noteq> 0 \<and> lower (answer e) \<noteq> ''yes'' \<longrightarrow>
         archive_handle e years False True il db
           = \<lparr>db_after = db,
              stdout = [Banner, Summary (archive_count_records c il db),
                        AboutTo (total (archive_count_records c il db)), Cancelled],
              raised = None\<rparr>)
      \<and> (total (archive_count_records c il db) \<noteq> 0 \<and> (\<forall>k. \<not> broken e k) \<longrightarrow>
         (db_after (archive_handle e years False True il db) \<noteq> db
            \<longleftrightarrow> lower (answer e) = ''yes'')
         \<and> raised (archive_handle e years False True il db) = None))
   \<and> ((ra \<or> truthy rt \<or> truthy dfs) \<and> parse_date strptime InvalidDateFrom dfs = Inr df
        \<and> parse_date strptime InvalidDateTo dts = Inr dt \<longrightarrow>
      (total (restore_count_records ra rt df dt db) = 0 \<longrightarrow>
         restore_handle strptime e False True ra rt dfs dts db
           = \<lparr>db_after = db,
              stdout = [Banner, Summary (restore_count_records ra rt df dt db), NoRecords, Cancelled],
              raised = None\<rparr>)
      \<and> (total (restore_count_records ra rt df dt db) \<noteq> 0 \<and> lower (answer e) \<noteq> ''yes'' \<longrightarrow>
         restore_handle strptime e False True ra rt dfs dts db
           = \<lparr>db_after = db,
              stdout = [Banner, Summary (restore_count_records ra rt df dt db),
                        AboutTo (total (restore_count_records ra rt df dt db)), Cancelled],
              raised = None\<rparr>)
      \<and> (total (restore_count_records ra rt df dt db) \<noteq> 0 \<and> (\<forall>k. \<not> broken e k) \<longrightarrow>
         (db_after (restore_handle strptime e False True ra rt dfs dts db) \<noteq> db
            \<longleftrightarrow> lower (answer e) = ''yes'')
         \<and> raised (restore_handle strptime e False True ra rt dfs dts db) = None))"
proof (intro conjI impI; (elim conjE)?)
  assume v: "1 \<le> years" "minus_days (now_cutoff e) (365 * years) = Inr c"
  {
    assume "total (archive_count_records c il db) = 0"
    with v show "archive_handle e years False True il db
           = \<lparr>db_after = db,
              stdout = [Banner, Summary (archive_count_records c il db), NoRecords, Cancelled],
              raised = None\<rparr>"
      by (rule archive_handle_nothing)
  next
    assume "total (archive_count_records c il db) \<noteq> 0" "lower (answer e) \<noteq> ''yes''"
    with v show "archive_handle e years False True il db
           = \<lparr>db_after = db,
              stdout = [Banner, Summary (archive_count_records c il db),
                        AboutTo (total (archive_count_records c il db)), Cancelled],
              raised = None\<rparr>"
      by (rule archive_handle_declined)
  next
    assume n: "total (archive_count_records c il db) \<noteq> 0" and s: "\<forall>k. \<not> broken e k"
    show "(db_after (archive_handle e years False True il db) \<noteq> db)
            = (lower (answer e) = ''yes'')"
    proof (cases "lower (answer e) = ''yes''")
      case True
      then show ?thesis using archive_confirmed_changes [OF v n True s] by simp
    next
      case False
      then show ?thesis using archive_handle_declined [OF v n False] by simp
    qed
    show "raised (archive_handle e years False True il db) = None"
    proof (cases "lower (answer e) = ''yes''")
      case True
      then show ?thesis using archive_handle_confirmed [OF v n True s] by simp
    next
      case False
      then show ?thesis using archive_handle_declined [OF v n False] by simp
    qed
  }
next
  assume v: "ra \<or> truthy rt \<or> truthy dfs" "parse_date strptime InvalidDateFrom dfs = Inr df"
    "parse_date strptime InvalidDateTo dts = Inr dt"
  {
    assume "total (restore_count_records ra rt df dt db) = 0"
    with v show "restore_handle strptime e False True ra rt dfs dts db
           = \<lparr>db_after = db,
              stdout = [Banner, Summary (restore_count_records ra rt df dt db), NoRecords, Cancelled],
              raised = None\<rparr>"
      by (rule restore_handle_nothing)
  next
    assume "total (restore_count_records ra rt df dt db) \<noteq> 0" "lower (answer e) \<noteq> ''yes''"
    with v show "restore_handle strptime e False True ra rt dfs dts db
           = \<lparr>db_after = db,
              stdout = [Banner, Summary (restore_count_records ra rt df dt db),
                        AboutTo (total (restore_count_records ra rt df dt db)), Cancelled],
              raised = None\<rparr>"
      by (rule restore_handle_declined)
  next
    assume n: "total (restore_count_records ra rt df dt db) \<noteq> 0" and "\<forall>k. \<not> broken e k"
    then have s: "\<forall>k. (ra \<or> rt = Some (type_name k)) \<longrightarrow> \<not> broken e k"
      by simp
    show "(db_after (restore_handle strptime e False True ra rt dfs dts db) \<noteq> db)
            = (lower (answer e) = ''yes'')"
    proof (cases "lower (answer e) = ''yes''")
      case True
      then show ?thesis using restore_confirmed_changes [OF v n True s] by simp
    next
      case False
      then show ?thesis using restore_handle_declined [OF v n False] by simp
    qed
    show "raised (restore_handle strptime e False True ra rt dfs dts db) = None"
    proof (cases "lower (answer e) = ''yes''")
      case True
      then show ?thesis using restore_handle_confirmed [OF v n True s] by simp
    next
      case False
      then show ?thesis using restore_handle_declined [OF v n False] by simp
    qed
  }
qed

theorem confirmation_gate_witness:
  "db_after (archive_handle sample_env 1 False True False sample_db) \<noteq> sample_db
   \<and> db_after (restore_handle sample_strptime sample_env False True True None None None sample_db)
       \<noteq> sample_db
   \<and> archive_handle declining_env 1 False True False sample_db
       = \<lparr>db_after = sample_db,
          stdout = [Banner, Summary \<lparr>assessments = 1, reports = 1, certificates = 0,
                     flood_activities = 0, user_logs = 0, total = 2\<rparr>, AboutTo 2, Cancelled],
          raised = None\<rparr>
   \<and> restore_handle sample_strptime declining_env False True True None None None sample_db
       = \<lparr>db_after = sample_db,
          stdout = [Banner, Summary \<lparr>assessments = 1, reports = 1, certificates = 0,
                     flood_activities = 0, user_logs = 0, total = 2\<rparr>, AboutTo 2, Cancelled],
          raised = None\<rparr>
   \<and> archive_handle sample_env 1 False True False empty_db
       = \<lparr>db_after = empty_db,
          stdout = [Banner, Summary \<lparr>assessments = 0, reports = 0, certificates = 0,
                     flood_activities = 0, user_logs = 0, total = 0\<rparr>, NoRecords, Cancelled],
          raised = None\<rparr>
   \<and> restore_handle sample_strptime sample_env False True True None None None empty_db
       = \<lparr>db_after = empty_db,
          stdout = [Banner, Summary \<lparr>assessments = 0, reports = 0, certificates = 0,
                     flood_activities = 0, user_logs = 0, total = 0\<rparr>, NoRecords, Cancelled],
          raised = None\<rparr>"
proof -
  have v: "(1::int) \<le> 1 \<and> minus_days (now_cutoff sample_env) (365 * 1) = Inr 1000"
    "(1::int) \<le> 1 \<and> minus_days (now_cutoff declining_env) (365 * 1) = Inr 1000"
    by (simp_all add: sample_env_def declining_env_def minus_days_def)
  have g: "(True \<or> truthy None \<or> truthy None)
      \<and> parse_date sample_strptime InvalidDateFrom None = Inr None
      \<and> parse_date sample_strptime InvalidDateTo None = Inr None"
    by simp
  have ca: "archive_count_records 1000 False sample_db
      = \<lparr>assessments = 1, reports = 1, certificates = 0, flood_activities = 0,
         user_logs = 0, total = 2\<rparr>"
    by code_simp
  have cr: "restore_count_records True None None None sample_db
      = \<lparr>assessments = 1, reports = 1, certificates = 0, flood_activities = 0,
         user_logs = 0, total = 2\<rparr>"
    by code_simp
  have ea: "archive_count_records 1000 False empty_db
      = \<lparr>assessments = 0, reports = 0, certificates = 0, flood_activities = 0,
         user_logs = 0, total = 0\<rparr>"
    by code_simp
  have er: "restore_count_records True None None None empty_db
      = \<lparr>assessments = 0, reports = 0, certificates = 0, flood_activities = 0,
         user_logs = 0, total = 0\<rparr>"
    by code_simp
  have y: "lower (answer sample_env) = ''yes''"
    by (simp add: sample_env_def lower_def lower_char_def char_of_eq_iff take_bit_eq_mod)
  have n: "lower (answer declining_env) \<noteq> ''yes''"
    by (simp add: declining_env_def lower_def)
  have s: "\<forall>k. \<not> broken sample_env k"
    by (simp add: sample_env_def)
  note yes = confirmation_gate [where e = sample_env and years = 1 and c = 1000 and il = False
      and db = sample_db and strptime = sample_strptime and ra = True and rt = None
      and dfs = None and dts = None and df = None and dt = None]
  note no = confirmation_gate [where e = declining_env and years = 1 and c = 1000 and il = False
      and db = sample_db and strptime = sample_strptime and ra = True and rt = None
      and dfs = None and dts = None and df = None and dt = None]
  note idle = confirmation_gate [where e = sample_env and years = 1 and c = 1000 and il = False
      and db = empty_db and strptime = sample_strptime and ra = True and rt = None
      and dfs = None and dts = None and df = None and dt = None]
  have 1: "db_after (archive_handle sample_env 1 False True False sample_db) \<noteq> sample_db"
    and 2: "db_after (restore_handle sample_strptime sample_env False True True None None None sample_db)
       \<noteq> sample_db"
    using yes v(1) g y s by (simp_all add: ca cr)
  have 3: "archive_handle declining_env 1 False True False sample_db
       = \<lparr>db_after = sample_db,
          stdout = [Banner, Summary \<lparr>assessments = 1, reports = 1, certificates = 0,
                     flood_activities = 0, user_logs = 0, total = 2\<rparr>, AboutTo 2, Cancelled],
          raised = None\<rparr>"
    and 4: "restore_handle sample_strptime declining_env False True True None None None sample_db
       = \<lparr>db_after = sample_db,
          stdout = [Banner, Summary \<lparr>assessments = 1, reports = 1, certificates = 0,
                     flood_activities = 0, user_logs = 0, total = 2\<rparr>, AboutTo 2, Cancelled],
          raised = None\<rparr>"
    using no v(2) g n by (simp_all add: ca cr)
  have 5: "archive_handle sample_env 1 False True False empty_db
       = \<lparr>db_after = empty_db,
          stdout = [Banner, Summary \<lparr>assessments = 0, reports = 0, certificates = 0,
                     flood_activities = 0, user_logs = 0, total = 0\<rparr>, NoRecords, Cancelled],
          raised = None\<rparr>"
    and 6: "restore_handle sample_strptime sample_env False True True None None None empty_db
       = \<lparr>db_after = empty_db,
          stdout = [Banner, Summary \<lparr>assessments = 0, reports = 0, certificates = 0,
                     flood_activities = 0, user_logs = 0, total = 0\<rparr>, NoRecords, Cancelled],
          raised = None\<rparr>"
    using idle v(1) g by (simp_all add: ea er)
  show ?thesis
    using 1 2 3 4 5 6 by blast
qed


section \<open>The pairing of the archival columns\<close>

lemma pairing_iff: "pairing db \<longleftrightarrow> (\<forall>k. \<forall>r\<in>set (db k). row_paired r)"
proof
  assume p: "pairing db"
  show "\<forall>k. \<forall>r\<in>set (db k). row_paired r"
  proof
    fix k
    have "k \<in> set all_kinds"
      by (cases k) (simp_all add: all_kinds_def)
    with p show "\<forall>r\<in>set (db k). row_paired r"
      by (simp add: pairing_def list_all_iff)
  qed
next
  assume "\<forall>k. \<forall>r\<in>set (db k). row_paired r"
  then show "pairing db"
    by (simp add: pairing_def list_all_iff)
qed

lemma paired_qs_update:
  assumes "\<forall>r\<in>set rows. row_paired r" and "\<And>r. row_paired (f r)"
  shows "\<forall>r\<in>set (qs_update p f rows). row_paired r"
  using assms by (auto simp: qs_update_def)

lemma paired_archive_fields: "row_paired (archive_fields n r)"
  by (simp add: row_paired_def archive_fields_def)

lemma paired_restore_fields: "row_paired (restore_fields r)"
  by (simp add: row_paired_def restore_fields_def)

lemma pairing_archive_tables:
  assumes "pairing db"
    and "\<forall>k. db' k = (if k = UserLogs \<and> \<not> il then db k
                       else qs_update (archive_filter c) (archive_fields n) (db k))"
  shows "pairing db'"
  unfolding pairing_iff
proof (intro allI)
  fix k
  have "\<forall>r\<in>set (db k). row_paired r"
    using assms(1) by (simp add: pairing_iff)
  then have "\<forall>r\<in>set (qs_update (archive_filter c) (archive_fields n) (db k)). row_paired r"
    by (rule paired_qs_update) (rule paired_archive_fields)
  with \<open>\<forall>r\<in>set (db k). row_paired r\<close> show "\<forall>r\<in>set (db' k). row_paired r"
    using assms(2) by simp
qed

lemma pairing_restore_tables:
  assumes "pairing db"
    and "\<forall>k. db' k = (if ra \<or> rt = Some (type_name k)
                       then qs_update (get_queryset df dt) restore_fields (db k) else db k)"
  shows "pairing db'"
  unfolding pairing_iff
proof (intro allI)
  fix k
  have "\<forall>r\<in>set (db k). row_paired r"
    using assms(1) by (simp add: pairing_iff)
  then have "\<forall>r\<in>set (qs_update (get_queryset df dt) restore_fields (db k)). row_paired r"
    by (rule paired_qs_update) (rule paired_restore_fields)
  with \<open>\<forall>r\<in>set (db k). row_paired r\<close> show "\<forall>r\<in>set (db' k). row_paired r"
    using assms(2) by simp
qed

text \<open>
  C6. The archive update writes \<open>is_archived = True\<close> together with a value of
  \<open>archived_at\<close>, the restore update writes \<open>is_archived = False\<close> together with the null
  \<open>archived_at\<close>; hence a database in which every row of every kind has \<open>archived_at\<close> set
  exactly when \<open>is_archived\<close> holds is again such a database after the mutating step of
  either command and after a whole run of either command, whatever the options, the
  response and the behaviour of the store.
\<close>

theorem pairing_preserved:
  assumes "pairing db"
  shows "pairing (fst (fst (archive_records brk c n il (db, out))))
    \<and> pairing (fst (fst (restore_records brk ra rt df dt (db, out))))
    \<and> pairing (db_after (archive_handle e years dry_run execute il db))
    \<and> pairing (db_after (restore_handle strptime e dry_run execute ra rt dfs dts db))"
proof (intro conjI)
  show "pairing (fst (fst (archive_records brk c n il (db, out))))"
  proof (cases "archive_records brk c n il (db, out)")
    case (Pair s res)
    show ?thesis
    proof (cases res)
      case (Inl err)
      with Pair have "archive_records brk c n il (db, out) = ((fst s, snd s), Inl err)"
        by simp
      from archive_records_rollback [OF this] Pair assms show ?thesis by simp
    next
      case (Inr cs)
      with Pair have run: "archive_records brk c n il (db, out) = ((fst s, snd s), Inr cs)"
        by simp
      have "pairing (fst s)"
        using archive_records_tables [OF run] by (intro pairing_archive_tables [OF assms] allI)
      with Pair show ?thesis by simp
    qed
  qed
  show "pairing (fst (fst (restore_records brk ra rt df dt (db, out))))"
  proof (cases "restore_records brk ra rt df dt (db, out)")
    case (Pair s res)
    show ?thesis
    proof (cases res)
      case (Inl err)
      with Pair have "restore_records brk ra rt df dt (db, out) = ((fst s, snd s), Inl err)"
        by simp
      from restore_records_rollback [OF this] Pair assms show ?thesis by simp
    next
      case (Inr d)
      with Pair have run: "restore_records brk ra rt df dt (db, out) = ((fst s, snd s), Inr d)"
        by simp
      have "pairing (fst s)"
        using restore_records_tables [OF run] by (intro pairing_restore_tables [OF assms] allI)
      with Pair show ?thesis by simp
    qed
  qed
  show "pairing (db_after (archive_handle e years dry_run execute il db))"
    using archive_handle_shape [of e years dry_run execute il db]
  proof (elim disjE exE)
    assume "db_after (archive_handle e years dry_run execute il db) = db"
    with assms show ?thesis by simp
  next
    fix c'
    assume "\<forall>k. db_after (archive_handle e years dry_run execute il db) k =
              (if k = UserLogs \<and> \<not> il then db k
               else qs_update (archive_filter c') (archive_fields (now_stamp e)) (db k))"
    with assms show ?thesis by (rule pairing_archive_tables)
  qed
  show "pairing (db_after (restore_handle strptime e dry_run execute ra rt dfs dts db))"
    using restore_handle_shape [of strptime e dry_run execute ra rt dfs dts db]
  proof (elim disjE exE)
    assume "db_after (restore_handle strptime e dry_run execute ra rt dfs dts db) = db"
    with assms show ?thesis by simp
  next
    fix df' dt'
    assume "\<forall>k. db_after (restore_handle strptime e dry_run execute ra rt dfs dts db) k =
              (if ra \<or> rt = Some (type_name k)
               then qs_update (get_queryset df' dt') restore_fields (db k) else db k)"
    with assms show ?thesis by (rule pairing_restore_tables)
  qed
qed

theorem pairing_preserved_witness:
  "pairing sample_db
   \<and> pairing (fst (fst (archive_records no_failure 1000 1007 True (sample_db, []))))
   \<and> pairing (fst (fst (restore_records no_failure True None None None (sample_db, []))))
   \<and> pairing (db_after (archive_handle sample_env 1 False True True sample_db))
   \<and> pairing (db_after (restore_handle sample_strptime sample_env False True True None None None
        sample_db))"
proof -
  have p: "pairing sample_db"
    by code_simp
  show ?thesis
    using p pairing_preserved [OF p, of no_failure 1000 1007 True "[]" True None None None
        sample_env 1 False True sample_strptime None None]
    by simp
qed


section \<open>Restoring one kind within a date range\<close>

lemma type_name_nonempty: "truthy (Some (type_name k))"
  by (cases k) simp_all

lemma type_name_reports: "Some ''reports'' = Some (type_name k) \<longleftrightarrow> k = Reports"
  by (cases k) simp_all

text \<open>
  C7. A confirmed restore execute run with \<^verbatim>\<open>--type=reports\<close>, \<^verbatim>\<open>--date-from\<close> and
  \<^verbatim>\<open>--date-to\<close>, the two dates parsing to the instants \<open>d1\<close> and \<open>d2\<close>, the store accepting
  the update of the report table: exactly the report rows that are archived and have
  \<open>d1 \<le> timestamp \<le> d2\<close> get \<open>is_archived = False\<close> and a null \<open>archived_at\<close>; every other
  report row and every row of every other kind is unchanged.
\<close>

theorem restore_reports_in_window:
  assumes "s1 \<noteq> []" and "s2 \<noteq> []"
    and "strptime s1 = Some d1" and "strptime s2 = Some d2"
    and "lower (answer e) = ''yes''"
    and "\<not> broken e Reports"
  shows "raised (restore_handle strptime e False True False (Some ''reports'') (Some s1) (Some s2) db)
           = None
    \<and> db_after (restore_handle strptime e False True False (Some ''reports'') (Some s1) (Some s2) db)
        Reports
       = map (\<lambda>r. if is_archived r \<and> d1 \<le> timestamp r \<and> timestamp r \<le> d2
                   then r\<lparr>is_archived := False, archived_at := None\<rparr> else r) (db Reports)
    \<and> (\<forall>k. k \<noteq> Reports \<longrightarrow>
          db_after (restore_handle strptime e False True False (Some ''reports'') (Some s1) (Some s2) db) k
            = db k)"
proof -
  have sel: "False \<or> truthy (Some ''reports'') \<or> truthy (Some s1)"
    by simp
  have p1: "parse_date strptime InvalidDateFrom (Some s1) = Inr (Some d1)"
    using assms(1,3) by simp
  have p2: "parse_date strptime InvalidDateTo (Some s2) = Inr (Some d2)"
    using assms(2,4) by simp
  have st: "\<forall>k. (False \<or> Some ''reports'' = Some (type_name k)) \<longrightarrow> \<not> broken e k"
    using assms(6) by (simp only: type_name_reports) simp
  note tabs = restore_handle_yes_tables [OF sel p1 p2 assms(5) st, of db, unfolded type_name_reports]
  have m: "qs_update (get_queryset (Some d1) (Some d2)) restore_fields (db Reports)
      = map (\<lambda>r. if is_archived r \<and> d1 \<le> timestamp r \<and> timestamp r \<le> d2
                  then r\<lparr>is_archived := False, archived_at := None\<rparr> else r) (db Reports)"
    by (simp add: qs_update_def get_queryset_def restore_fields_def)
  have a: "db_after (restore_handle strptime e False True False (Some ''reports'') (Some s1) (Some s2) db)
        Reports
       = map (\<lambda>r. if is_archived r \<and> d1 \<le> timestamp r \<and> timestamp r \<le> d2
                   then r\<lparr>is_archived := False, archived_at := None\<rparr> else r) (db Reports)"
    using tabs [of Reports] m by simp
  have b: "\<forall>k. k \<noteq> Reports \<longrightarrow>
          db_after (restore_handle strptime e False True False (Some ''reports'') (Some s1) (Some s2) db) k
            = db k"
    using tabs by simp
  show ?thesis
    using a b restore_handle_yes_raised [OF sel p1 p2 assms(5) st, of db]
    by blast
qed

theorem restore_reports_in_window_witness:
  "db_after (restore_handle sample_strptime sample_env False True False (Some ''reports'')
      (Some ''2023-01-01'') (Some ''2023-12-31'') report_db) Reports
     = [old_row, shelved_row\<lparr>is_archived := False, archived_at := None\<rparr>, late_row]
   \<and> db_after (restore_handle sample_strptime sample_env False True False (Some ''reports'')
      (Some ''2023-01-01'') (Some ''2023-12-31'') report_db) Assessments
     = [shelved_row]"
proof -
  have h: "''2023-01-01'' \<noteq> []" "''2023-12-31'' \<noteq> []"
    "sample_strptime ''2023-01-01'' = Some 50" "sample_strptime ''2023-12-31'' = Some 150"
    "lower (answer sample_env) = ''yes''" "\<not> broken sample_env Reports"
    by (simp_all add: sample_env_def lower_def lower_char_def char_of_eq_iff take_bit_eq_mod)
  have m: "map (\<lambda>r. if is_archived r \<and> 50 \<le> timestamp r \<and> timestamp r \<le> 150
                     then r\<lparr>is_archived := False, archived_at := None\<rparr> else r) (report_db Reports)
      = [old_row, shelved_row\<lparr>is_archived := False, archived_at := None\<rparr>, late_row]"
    by (simp add: old_row_def shelved_row_def late_row_def)
  show ?thesis
    using restore_reports_in_window [OF h, of report_db] m
    by (simp del: sample_strptime.simps)
qed

section \<open>Archiving and restoring again\<close>

subsection \<open>Through the all flag or the type of the row\<close>

text \<open>
  A row that a confirmed archive run archives (its kind takes part, its timestamp is
  before the cutoff, it is not archived) and that a following confirmed restore run
  selects by \<^verbatim>\<open>--all\<close> or by its kind's \<^verbatim>\<open>--type\<close>, its timestamp within the date bounds
  given, is archived with \<open>archived_at\<close> set in between and ends with
  \<open>is_archived = False\<close> and a null \<open>archived_at\<close>, its key, its business fields and its
  timestamp being those it had before the archive run: the two runs write only the two
  archival columns.
\<close>

theorem archive_restore_round_trip:
  assumes "1 \<le> years"
    and "minus_days (now_cutoff e) (365 * years) = Inr cutoff"
    and "lower (answer e) = ''yes''"
    and "\<forall>k. \<not> broken e k"
    and "K \<noteq> UserLogs \<or> il"
    and "i < length (db K)"
    and "timestamp (db K ! i) < cutoff"
    and "\<not> is_archived (db K ! i)"
    and "ra \<or> rt = Some (type_name K)"
    and "parse_date strptime InvalidDateFrom dfs = Inr df"
    and "parse_date strptime InvalidDateTo dts = Inr dt"
    and "case df of None \<Rightarrow> True | Some d \<Rightarrow> d \<le> timestamp (db K ! i)"
    and "case dt of None \<Rightarrow> True | Some d \<Rightarrow> timestamp (db K ! i) \<le> d"
    and "lower (answer e') = ''yes''"
    and "\<forall>k. \<not> broken e' k"
  shows "db_after (archive_handle e years False True il db) K ! i
           = (db K ! i)\<lparr>is_archived := True, archived_at := Some (now_stamp e)\<rparr>
    \<and> db_after (restore_handle strptime e' False True ra rt dfs dts
                  (db_after (archive_handle e years False True il db))) K ! i
           = (db K ! i)\<lparr>is_archived := False, archived_at := None\<rparr>
    \<and> (archived_at (db K ! i) = None \<longrightarrow>
         db_after (restore_handle strptime e' False True ra rt dfs dts
                  (db_after (archive_handle e years False True il db))) K ! i
           = db K ! i)"
proof -
  let ?db1 = "db_after (archive_handle e years False True il db)"
  let ?db2 = "db_after (restore_handle strptime e' False True ra rt dfs dts ?db1)"
  let ?r = "db K ! i"
  have t1: "?db1 K = qs_update (archive_filter cutoff) (archive_fields (now_stamp e)) (db K)"
    using archive_handle_yes_tables [OF assms(1-4), of il db K] assms(5) by auto
  have r1: "?db1 K ! i = archive_fields (now_stamp e) ?r"
    unfolding t1 using assms(6-8) by (simp add: nth_qs_update archive_filter_def)
  have len: "i < length (?db1 K)"
    unfolding t1 using assms(6) by (simp add: length_qs_update)
  have sel: "ra \<or> truthy rt \<or> truthy dfs"
    using assms(9) type_name_nonempty [of K] by auto
  have st: "\<forall>k. (ra \<or> rt = Some (type_name k)) \<longrightarrow> \<not> broken e' k"
    using assms(15) by simp
  have t2: "?db2 K = qs_update (get_queryset df dt) restore_fields (?db1 K)"
    using restore_handle_yes_tables [OF sel assms(10,11,14) st, of ?db1 K] assms(9)
    by (simp only: if_True)
  have hit: "get_queryset df dt (archive_fields (now_stamp e) ?r)"
    using assms(12,13)
    by (simp add: get_queryset_def archive_fields_def split: option.splits)
  have r2: "?db2 K ! i = restore_fields (archive_fields (now_stamp e) ?r)"
    unfolding t2 using len hit by (simp add: nth_qs_update r1)
  have undo: "restore_fields (archive_fields (now_stamp e) ?r)
                = ?r\<lparr>is_archived := False, archived_at := None\<rparr>"
    by (simp add: restore_fields_def archive_fields_def)
  have same: "?r\<lparr>is_archived := False, archived_at := None\<rparr> = ?r" if "archived_at ?r = None"
    using that assms(8) by simp
  show ?thesis
    using r1 r2 undo same by (simp add: archive_fields_def)
qed

theorem archive_restore_round_trip_witness:
  "db_after (archive_handle sample_env 1 False True False sample_db) Assessments ! 0
     = old_row\<lparr>is_archived := True, archived_at := Some 31536000001007\<rparr>
   \<and> db_after (restore_handle sample_strptime sample_env False True False (Some ''assessments'')
        (Some ''2023-01-01'') None
        (db_after (archive_handle sample_env 1 False True False sample_db))) Assessments ! 0
     = old_row"
proof -
  have h: "(1::int) \<le> 1" "minus_days (now_cutoff sample_env) (365 * 1) = Inr 1000"
    "lower (answer sample_env) = ''yes''" "\<forall>k. \<not> broken sample_env k"
    "Assessments \<noteq> UserLogs \<or> False"
    "0 < length (sample_db Assessments)"
    "timestamp (sample_db Assessments ! 0) < 1000"
    "\<not> is_archived (sample_db Assessments ! 0)"
    "False \<or> Some ''assessments'' = Some (type_name Assessments)"
    "parse_date sample_strptime InvalidDateFrom (Some ''2023-01-01'') = Inr (Some 50)"
    "parse_date sample_strptime InvalidDateTo None = Inr None"
    "case Some 50 of None \<Rightarrow> True | Some d \<Rightarrow> d \<le> timestamp (sample_db Assessments ! 0)"
    "case None of None \<Rightarrow> True | Some (d::int) \<Rightarrow> timestamp (sample_db Assessments ! 0) \<le> d"
    "lower (answer sample_env) = ''yes''" "\<forall>k. \<not> broken sample_env k"
    by (simp_all add: sample_env_def minus_days_def lower_def lower_char_def
          char_of_eq_iff take_bit_eq_mod old_row_def)
  have o: "sample_db Assessments ! 0 = old_row" "archived_at old_row = None"
    "old_row\<lparr>is_archived := False, archived_at := None\<rparr> = old_row"
    by (simp_all add: old_row_def)
  note t = archive_restore_round_trip [where e = sample_env and years = 1 and cutoff = 1000
      and K = Assessments and il = False and i = 0 and db = sample_db and ra = False
      and rt = "Some ''assessments''" and strptime = sample_strptime
      and dfs = "Some ''2023-01-01''" and df = "Some 50" and dts = None and dt = None
      and e' = sample_env]
  show ?thesis
    using t [OF h] o by (simp add: sample_env_def del: sample_strptime.simps)
qed


subsection \<open>Through a date range alone\<close>

text \<open>
  Without \<^verbatim>\<open>--all\<close> and without \<^verbatim>\<open>--type\<close> no guard of \<^verbatim>\<open>_count_records\<close> and of
  \<^verbatim>\<open>_restore_records\<close> holds, so the restore command changes no table, whatever the
  dates, the response and the store.
\<close>

lemma restore_by_dates_alone:
  "db_after (restore_handle strptime e dry_run execute False None dfs dts db) = db"
  using restore_handle_shape [of strptime e dry_run execute False None dfs dts db]
proof (elim disjE exE)
  assume "db_after (restore_handle strptime e dry_run execute False None dfs dts db) = db"
  then show ?thesis .
next
  fix df dt
  assume "\<forall>k. db_after (restore_handle strptime e dry_run execute False None dfs dts db) k =
            (if False \<or> None = Some (type_name k)
             then qs_update (get_queryset df dt) restore_fields (db k) else db k)"
  then have "\<And>k. db_after (restore_handle strptime e dry_run execute False None dfs dts db) k
               = db k"
    by simp
  then show ?thesis by (rule ext)
qed

text \<open>
  C8 at the failing input. The first assessment of the sample data, with timestamp 100,
  is archived by a confirmed archive run. The restore command is then run with
  \<^verbatim>\<open>--execute --date-from=2023-01-01 --date-to=2023-12-31\<close>, the two dates parsing to the
  instants 50 and 150: the selector is accepted and matches the row, yet the preview
  counts 0 for every kind, the run stops at the nothing-to-do message, and the row is
  still archived.
\<close>

theorem date_range_alone_restores_nothing:
  "db_after (archive_handle sample_env 1 False True False sample_db) Assessments ! 0
     = \<lparr>pk = 1, business = ''Barangay I'', timestamp = 100, is_archived = True,
        archived_at = Some 31536000001007\<rparr>
   \<and> sample_strptime ''2023-01-01'' = Some 50
   \<and> sample_strptime ''2023-12-31'' = Some 150
   \<and> raised (restore_handle sample_strptime sample_env False True False None
               (Some ''2023-01-01'') (Some ''2023-12-31'')
               (db_after (archive_handle sample_env 1 False True False sample_db))) = None
   \<and> stdout (restore_handle sample_strptime sample_env False True False None
               (Some ''2023-01-01'') (Some ''2023-12-31'')
               (db_after (archive_handle sample_env 1 False True False sample_db)))
       = [Banner,
          Summary \<lparr>assessments = 0, reports = 0, certificates = 0, flood_activities = 0,
                   user_logs = 0, total = 0\<rparr>,
          NoRecords, Cancelled]
   \<and> db_after (restore_handle sample_strptime sample_env False True False None
               (Some ''2023-01-01'') (Some ''2023-12-31'')
               (db_after (archive_handle sample_env 1 False True False sample_db))) Assessments ! 0
       = \<lparr>pk = 1, business = ''Barangay I'', timestamp = 100, is_archived = True,
          archived_at = Some 31536000001007\<rparr>"
  by code_simp

section \<open>Archiving twice\<close>

lemma archive_count_after:
  assumes "\<forall>k. db' k = (if k = UserLogs \<and> \<not> il then db k
                       else qs_update (archive_filter c) (archive_fields n) (db k))"
  shows "archive_count_records c il db'
           = \<lparr>assessments = 0, reports = 0, certificates = 0, flood_activities = 0,
              user_logs = 0, total = 0\<rparr>"
  by (simp add: archive_count_records_def Let_def assms qs_count_archived_again)

text \<open>
  C9. With a store that works, a second call of \<^verbatim>\<open>_archive_records\<close> with the same cutoff,
  on the tables the first call left, changes no table and returns the count 0 for every
  kind and for the total. For the command as a whole: after a confirmed run, a second
  execute run whose clock reading gives the same cutoff previews 0 for every kind and
  stops at the nothing-to-do message with every table as the first run left it.
\<close>

theorem archive_twice:
  "((\<forall>k. \<not> brk k) \<longrightarrow>
      fst (fst (archive_records brk c n2 il (fst (archive_records brk c n1 il (db, out)))))
        = fst (fst (archive_records brk c n1 il (db, out)))
      \<and> snd (archive_records brk c n2 il (fst (archive_records brk c n1 il (db, out))))
        = Inr \<lparr>assessments = 0, reports = 0, certificates = 0, flood_activities = 0,
               user_logs = 0, total = 0\<rparr>)
   \<and> (1 \<le> years \<and> minus_days (now_cutoff e) (365 * years) = Inr c
        \<and> lower (answer e) = ''yes'' \<and> (\<forall>k. \<not> broken e k) \<and> now_cutoff e' = now_cutoff e \<longrightarrow>
      archive_handle e' years False True il (db_after (archive_handle e years False True il db))
        = \<lparr>db_after = db_after (archive_handle e years False True il db),
           stdout = [Banner,
                     Summary \<lparr>assessments = 0, reports = 0, certificates = 0, flood_activities = 0,
                              user_logs = 0, total = 0\<rparr>,
                     NoRecords, Cancelled],
           raised = None\<rparr>)"
proof (intro conjI impI; (elim conjE)?)
  assume ok: "\<forall>k. \<not> brk k"
  from archive_records_returns [OF ok] obtain db1 out1 cs1
    where run1: "archive_records brk c n1 il (db, out) = ((db1, out1), Inr cs1)"
    by blast
  from archive_records_returns [OF ok] obtain db2 out2 cs2
    where run2: "archive_records brk c n2 il (db1, out1) = ((db2, out2), Inr cs2)"
    by blast
  have t1: "\<forall>k. db1 k = (if k = UserLogs \<and> \<not> il then db k
                       else qs_update (archive_filter c) (archive_fields n1) (db k))"
    using archive_records_tables [OF run1] by blast
  have "db2 k = db1 k" for k
  proof (cases "k = UserLogs \<and> \<not> il")
    case True
    then show ?thesis using archive_records_tables [OF run2, of k] by simp
  next
    case False
    have "db1 k = qs_update (archive_filter c) (archive_fields n1) (db k)"
      using t1 [rule_format, of k] by (simp only: False if_False)
    then have "qs_count (archive_filter c) (db1 k) = 0"
      by (simp only: qs_count_archived_again)
    then have "qs_update (archive_filter c) (archive_fields n2) (db1 k) = db1 k"
      by (rule qs_update_none)
    then show ?thesis using archive_records_tables [OF run2, of k] False by simp
  qed
  then have same: "db2 = db1" by (rule ext)
  have "cs2 = archive_count_records c il db1"
    using run2 by (rule archive_records_counts)
  then have zero: "cs2 = \<lparr>assessments = 0, reports = 0, certificates = 0, flood_activities = 0,
                         user_logs = 0, total = 0\<rparr>"
    using archive_count_after [OF t1] by simp
  show "fst (fst (archive_records brk c n2 il (fst (archive_records brk c n1 il (db, out)))))
        = fst (fst (archive_records brk c n1 il (db, out)))"
    by (simp add: run1 run2 same)
  show "snd (archive_records brk c n2 il (fst (archive_records brk c n1 il (db, out))))
        = Inr \<lparr>assessments = 0, reports = 0, certificates = 0, flood_activities = 0,
               user_logs = 0, total = 0\<rparr>"
    by (simp add: run1 run2 zero)
next
  assume v: "1 \<le> years" "minus_days (now_cutoff e) (365 * years) = Inr c"
    and y: "lower (answer e) = ''yes''" and ok: "\<forall>k. \<not> broken e k"
    and clock: "now_cutoff e' = now_cutoff e"
  let ?db1 = "db_after (archive_handle e years False True il db)"
  have t1: "\<forall>k. ?db1 k = (if k = UserLogs \<and> \<not> il then db k
                       else qs_update (archive_filter c) (archive_fields (now_stamp e)) (db k))"
    using archive_handle_yes_tables [OF v y ok] by blast
  have zero: "archive_count_records c il ?db1
           = \<lparr>assessments = 0, reports = 0, certificates = 0, flood_activities = 0,
              user_logs = 0, total = 0\<rparr>"
    using t1 by (rule archive_count_after)
  have v': "minus_days (now_cutoff e') (365 * years) = Inr c"
    using v(2) clock by simp
  have "total (archive_count_records c il ?db1) = 0"
    by (simp add: zero)
  from archive_handle_nothing [OF v(1) v' this]
  show "archive_handle e' years False True il ?db1
        = \<lparr>db_after = ?db1,
           stdout = [Banner,
                     Summary \<lparr>assessments = 0, reports = 0, certificates = 0, flood_activities = 0,
                              user_logs = 0, total = 0\<rparr>,
                     NoRecords, Cancelled],
           raised = None\<rparr>"
    by (simp add: zero)
qed

theorem archive_twice_witness:
  "fst (fst (archive_records no_failure 1000 1009 True
        (fst (archive_records no_failure 1000 1007 True (sample_db, [])))))
     = fst (fst (archive_records no_failure 1000 1007 True (sample_db, [])))
   \<and> snd (archive_records no_failure 1000 1009 True
        (fst (archive_records no_failure 1000 1007 True (sample_db, []))))
     = Inr \<lparr>assessments = 0, reports = 0, certificates = 0, flood_activities = 0,
            user_logs = 0, total = 0\<rparr>
   \<and> fst (fst (archive_records no_failure 1000 1007 True (sample_db, []))) Assessments
     = [archive_fields 1007 old_row, recent_row, shelved_row]
   \<and> db_after (archive_handle sample_env 1 False True True sample_db) Assessments
     = [\<lparr>pk = 1, business = ''Barangay I'', timestamp = 100, is_archived = True,
         archived_at = Some 31536000001007\<rparr>, recent_row, shelved_row]
   \<and> archive_handle sample_env 1 False True True
        (db_after (archive_handle sample_env 1 False True True sample_db))
     = \<lparr>db_after = db_after (archive_handle sample_env 1 False True True sample_db),
        stdout = [Banner,
                  Summary \<lparr>assessments = 0, reports = 0, certificates = 0, flood_activities = 0,
                           user_logs = 0, total = 0\<rparr>,
                  NoRecords, Cancelled],
        raised = None\<rparr>"
proof -
  have ok: "\<forall>k. \<not> no_failure k"
    by simp
  have h: "(1::int) \<le> 1 \<and> minus_days (now_cutoff sample_env) (365 * 1) = Inr 1000
      \<and> lower (answer sample_env) = ''yes'' \<and> (\<forall>k. \<not> broken sample_env k)
      \<and> now_cutoff sample_env = now_cutoff sample_env"
    by (simp add: sample_env_def minus_days_def lower_def lower_char_def
          char_of_eq_iff take_bit_eq_mod)
  have run: "db_after (archive_handle sample_env 1 False True True sample_db) Assessments
     = [\<lparr>pk = 1, business = ''Barangay I'', timestamp = 100, is_archived = True,
         archived_at = Some 31536000001007\<rparr>, recent_row, shelved_row]"
    by code_simp
  have first: "fst (fst (archive_records no_failure 1000 1007 True (sample_db, []))) Assessments
     = [archive_fields 1007 old_row, recent_row, shelved_row]"
    by code_simp
  note t = archive_twice [where brk = no_failure and c = 1000 and ?n1.0 = 1007 and ?n2.0 = 1009
      and il = True and db = sample_db and out = "[]" and years = 1 and e = sample_env
      and e' = sample_env]
  show ?thesis
    using t ok h first run by simp
qed

section \<open>The all flag together with a type\<close>

lemma restore_all_body:
  assumes "\<forall>k. \<not> brk k"
  shows "restore_records_body brk True rt df dt (db, out)
    = ((\<lambda>k. qs_update (get_queryset df dt) restore_fields (db k),
        out @ [Wrote Assessments (qs_count (get_queryset df dt) (db Assessments)),
               Wrote Reports (qs_count (get_queryset df dt) (db Reports)),
               Wrote Certificates (qs_count (get_queryset df dt) (db Certificates)),
               Wrote FloodActivities (qs_count (get_queryset df dt) (db FloodActivities)),
               Wrote UserLogs (qs_count (get_queryset df dt) (db UserLogs))]),
       Inr [(''assessments'', qs_count (get_queryset df dt) (db Assessments)),
            (''reports'', qs_count (get_queryset df dt) (db Reports)),
            (''certificates'', qs_count (get_queryset df dt) (db Certificates)),
            (''flood_activities'', qs_count (get_queryset df dt) (db FloodActivities)),
            (''user_logs'', qs_count (get_queryset df dt) (db UserLogs)),
            (''total'', qs_count (get_queryset df dt) (db Assessments)
                        + qs_count (get_queryset df dt) (db Reports)
                        + qs_count (get_queryset df dt) (db Certificates)
                        + qs_count (get_queryset df dt) (db FloodActivities)
                        + qs_count (get_queryset df dt) (db UserLogs))])"
proof -
  have tabs: "db(Assessments := qs_update (get_queryset df dt) restore_fields (db Assessments),
       Reports := qs_update (get_queryset df dt) restore_fields (db Reports),
       Certificates := qs_update (get_queryset df dt) restore_fields (db Certificates),
       FloodActivities := qs_update (get_queryset df dt) restore_fields (db FloodActivities),
       UserLogs := qs_update (get_queryset df dt) restore_fields (db UserLogs))
     = (\<lambda>k. qs_update (get_queryset df dt) restore_fields (db k))"
  proof (rule ext)
    fix k
    show "(db(Assessments := qs_update (get_queryset df dt) restore_fields (db Assessments),
       Reports := qs_update (get_queryset df dt) restore_fields (db Reports),
       Certificates := qs_update (get_queryset df dt) restore_fields (db Certificates),
       FloodActivities := qs_update (get_queryset df dt) restore_fields (db FloodActivities),
       UserLogs := qs_update (get_queryset df dt) restore_fields (db UserLogs))) k
     = qs_update (get_queryset df dt) restore_fields (db k)"
      by (cases k) simp_all
  qed
  show ?thesis
    using assms
    by (simp add: restore_records_body_def restore_block_def update_stmt_def and_then_def
          stdout_write_def tabs add.assoc)
qed

lemma restore_count_all:
  "restore_count_records True rt df dt db = restore_count_records True None df dt db"
  by (simp add: restore_count_records_def)

lemma restore_records_all:
  "restore_records brk True rt df dt s = restore_records brk True None df dt s"
  by (simp add: restore_records_def transaction_atomic_def restore_records_body_def
        restore_block_def)

lemma restore_all_effect:
  assumes "\<forall>k. \<not> brk k"
  shows "(\<forall>k. fst (fst (restore_records brk True rt df dt (db, out))) k
               = qs_update (get_queryset df dt) restore_fields (db k))
    \<and> snd (restore_records brk True rt df dt (db, out))
        = Inr [(''assessments'', qs_count (get_queryset df dt) (db Assessments)),
               (''reports'', qs_count (get_queryset df dt) (db Reports)),
               (''certificates'', qs_count (get_queryset df dt) (db Certificates)),
               (''flood_activities'', qs_count (get_queryset df dt) (db FloodActivities)),
               (''user_logs'', qs_count (get_queryset df dt) (db UserLogs)),
               (''total'', qs_count (get_queryset df dt) (db Assessments)
                           + qs_count (get_queryset df dt) (db Reports)
                           + qs_count (get_queryset df dt) (db Certificates)
                           + qs_count (get_queryset df dt) (db FloodActivities)
                           + qs_count (get_queryset df dt) (db UserLogs))]"
  by (simp add: restore_records_def transaction_atomic_def restore_all_body [OF assms])

lemma restore_all_counts:
  "restore_count_records True rt df dt db
     = \<lparr>assessments = qs_count (get_queryset df dt) (db Assessments),
        reports = qs_count (get_queryset df dt) (db Reports),
        certificates = qs_count (get_queryset df dt) (db Certificates),
        flood_activities = qs_count (get_queryset df dt) (db FloodActivities),
        user_logs = qs_count (get_queryset df dt) (db UserLogs),
        total = qs_count (get_queryset df dt) (db Assessments)
                + qs_count (get_queryset df dt) (db Reports)
                + qs_count (get_queryset df dt) (db Certificates)
                + qs_count (get_queryset df dt) (db FloodActivities)
                + qs_count (get_queryset df dt) (db UserLogs)\<rparr>"
  by (simp add: restore_count_records_def Let_def)

text \<open>The count and the update of the restore queryset, written out on the columns.\<close>

lemma get_queryset_columns:
  "get_queryset df dt
     = (\<lambda>r. is_archived r
             \<and> (case df of None \<Rightarrow> True | Some d \<Rightarrow> d \<le> timestamp r)
             \<and> (case dt of None \<Rightarrow> True | Some d \<Rightarrow> timestamp r \<le> d))"
  by (rule ext) (simp add: get_queryset_def)

lemma qs_count_restore:
  "qs_count (get_queryset df dt) rows
     = length (filter (\<lambda>r. is_archived r
                            \<and> (case df of None \<Rightarrow> True | Some d \<Rightarrow> d \<le> timestamp r)
                            \<and> (case dt of None \<Rightarrow> True | Some d \<Rightarrow> timestamp r \<le> d)) rows)"
  by (simp add: qs_count_def get_queryset_columns)

lemma qs_update_restore:
  "qs_update (get_queryset df dt) restore_fields rows
     = map (\<lambda>r. if is_archived r
                    \<and> (case df of None \<Rightarrow> True | Some d \<Rightarrow> d \<le> timestamp r)
                    \<and> (case dt of None \<Rightarrow> True | Some d \<Rightarrow> timestamp r \<le> d)
                 then r\<lparr>is_archived := False, archived_at := None\<rparr> else r) rows"
  by (simp add: qs_update_def get_queryset_columns restore_fields_def)

text \<open>
  C10. With \<^verbatim>\<open>--all\<close> the value of \<^verbatim>\<open>--type\<close> has no effect: the counts, the mutating step
  and the whole run are those of \<^verbatim>\<open>--all\<close> alone, so the combination is neither refused nor
  narrowed. Every one of the five kinds is counted: its count is the number of its rows
  that are archived and have their timestamp within the date bounds given. And when the
  store works every one of the five kinds is restored: each such row of each kind gets
  \<open>is_archived = False\<close> and a null \<open>archived_at\<close>, every other row is unchanged, and the
  returned dictionary has that number under the key of each of the five kinds and their
  sum under \<open>total\<close>.
\<close>

theorem all_flag_overrides_type:
  "restore_count_records True rt df dt db = restore_count_records True None df dt db
   \<and> restore_records brk True rt df dt s = restore_records brk True None df dt s
   \<and> restore_handle strptime e dry_run execute True rt dfs dts db
       = restore_handle strptime e dry_run execute True None dfs dts db
   \<and> (let hit = (\<lambda>r. is_archived r
                       \<and> (case df of None \<Rightarrow> True | Some d \<Rightarrow> d \<le> timestamp r)
                       \<and> (case dt of None \<Rightarrow> True | Some d \<Rightarrow> timestamp r \<le> d));
           n = (\<lambda>k. length (filter hit (db k)))
       in restore_count_records True rt df dt db
            = \<lparr>assessments = n Assessments, reports = n Reports, certificates = n Certificates,
               flood_activities = n FloodActivities, user_logs = n UserLogs,
               total = n Assessments + n Reports + n Certificates + n FloodActivities
                       + n UserLogs\<rparr>
          \<and> ((\<forall>k. \<not> brk k) \<longrightarrow>
               (\<forall>k. fst (fst (restore_records brk True rt df dt (db, out))) k
                      = map (\<lambda>r. if hit r then r\<lparr>is_archived := False, archived_at := None\<rparr>
                                  else r) (db k))
               \<and> snd (restore_records brk True rt df dt (db, out))
                   = Inr [(''assessments'', n Assessments), (''reports'', n Reports),
                          (''certificates'', n Certificates),
                          (''flood_activities'', n FloodActivities),
                          (''user_logs'', n UserLogs),
                          (''total'', n Assessments + n Reports + n Certificates
                                      + n FloodActivities + n UserLogs)]))"
proof (intro conjI)
  show "restore_count_records True rt df dt db = restore_count_records True None df dt db"
    by (rule restore_count_all)
  show "restore_records brk True rt df dt s = restore_records brk True None df dt s"
    by (rule restore_records_all)
  show "restore_handle strptime e dry_run execute True rt dfs dts db
       = restore_handle strptime e dry_run execute True None dfs dts db"
    unfolding restore_handle_def restore_count_all [of rt] restore_records_all [of _ rt]
    by simp
  show "let hit = (\<lambda>r. is_archived r
                       \<and> (case df of None \<Rightarrow> True | Some d \<Rightarrow> d \<le> timestamp r)
                       \<and> (case dt of None \<Rightarrow> True | Some d \<Rightarrow> timestamp r \<le> d));
           n = (\<lambda>k. length (filter hit (db k)))
       in restore_count_records True rt df dt db
            = \<lparr>assessments = n Assessments, reports = n Reports, certificates = n Certificates,
               flood_activities = n FloodActivities, user_logs = n UserLogs,
               total = n Assessments + n Reports + n Certificates + n FloodActivities
                       + n UserLogs\<rparr>
          \<and> ((\<forall>k. \<not> brk k) \<longrightarrow>
               (\<forall>k. fst (fst (restore_records brk True rt df dt (db, out))) k
                      = map (\<lambda>r. if hit r then r\<lparr>is_archived := False, archived_at := None\<rparr>
                                  else r) (db k))
               \<and> snd (restore_records brk True rt df dt (db, out))
                   = Inr [(''assessments'', n Assessments), (''reports'', n Reports),
                          (''certificates'', n Certificates),
                          (''flood_activities'', n FloodActivities),
                          (''user_logs'', n UserLogs),
                          (''total'', n Assessments + n Reports + n Certificates
                                      + n FloodActivities + n UserLogs)])"
    unfolding Let_def
  proof (intro conjI impI)
    show "restore_count_records True rt df dt db
      = \<lparr>assessments = length (filter (\<lambda>r. is_archived r
                \<and> (case df of None \<Rightarrow> True | Some d \<Rightarrow> d \<le> timestamp r)
                \<and> (case dt of None \<Rightarrow> True | Some d \<Rightarrow> timestamp r \<le> d)) (db Assessments)),
         reports = length (filter (\<lambda>r. is_archived r
                \<and> (case df of None \<Rightarrow> True | Some d \<Rightarrow> d \<le> timestamp r)
                \<and> (case dt of None \<Rightarrow> True | Some d \<Rightarrow> timestamp r \<le> d)) (db Reports)),
         certificates = length (filter (\<lambda>r. is_archived r
                \<and> (case df of None \<Rightarrow> True | Some d \<Rightarrow> d \<le> timestamp r)
                \<and> (case dt of None \<Rightarrow> True | Some d \<Rightarrow> timestamp r \<le> d)) (db Certificates)),
         flood_activities = length (filter (\<lambda>r. is_archived r
                \<and> (case df of None \<Rightarrow> True | Some d \<Rightarrow> d \<le> timestamp r)
                \<and> (case dt of None \<Rightarrow> True | Some d \<Rightarrow> timestamp r \<le> d)) (db FloodActivities)),
         user_logs = length (filter (\<lambda>r. is_archived r
                \<and> (case df of None \<Rightarrow> True | Some d \<Rightarrow> d \<le> timestamp r)
                \<and> (case dt of None \<Rightarrow> True | Some d \<Rightarrow> timestamp r \<le> d)) (db UserLogs)),
         total = length (filter (\<lambda>r. is_archived r
                \<and> (case df of None \<Rightarrow> True | Some d \<Rightarrow> d \<le> timestamp r)
                \<and> (case dt of None \<Rightarrow> True | Some d \<Rightarrow> timestamp r \<le> d)) (db Assessments))
            + length (filter (\<lambda>r. is_archived r
                \<and> (case df of None \<Rightarrow> True | Some d \<Rightarrow> d \<le> timestamp r)
                \<and> (case dt of None \<Rightarrow> True | Some d \<Rightarrow> timestamp r \<le> d)) (db Reports))
            + length (filter (\<lambda>r. is_archived r
                \<and> (case df of None \<Rightarrow> True | Some d \<Rightarrow> d \<le> timestamp r)
                \<and> (case dt of None \<Rightarrow> True | Some d \<Rightarrow> timestamp r \<le> d)) (db Certificates))
            + length (filter (\<lambda>r. is_archived r
                \<and> (case df of None \<Rightarrow> True | Some d \<Rightarrow> d \<le> timestamp r)
                \<and> (case dt of None \<Rightarrow> True | Some d \<Rightarrow> timestamp r \<le> d)) (db FloodActivities))
            + length (filter (\<lambda>r. is_archived r
                \<and> (case df of None \<Rightarrow> True | Some d \<Rightarrow> d \<le> timestamp r)
                \<and> (case dt of None \<Rightarrow> True | Some d \<Rightarrow> timestamp r \<le> d)) (db UserLogs))\<rparr>"
      unfolding qs_count_restore [symmetric] by (rule restore_all_counts)
  next
    assume ok: "\<forall>k. \<not> brk k"
    note eff = restore_all_effect [OF ok, of rt df dt db out, unfolded qs_count_restore qs_update_restore]
    from eff show "\<forall>k. fst (fst (restore_records brk True rt df dt (db, out))) k
        = map (\<lambda>r. if is_archived r
                      \<and> (case df of None \<Rightarrow> True | Some d \<Rightarrow> d \<le> timestamp r)
                      \<and> (case dt of None \<Rightarrow> True | Some d \<Rightarrow> timestamp r \<le> d)
                    then r\<lparr>is_archived := False, archived_at := None\<rparr> else r) (db k)"
      by (rule conjunct1)
    from eff show "snd (restore_records brk True rt df dt (db, out))
      = Inr [(''assessments'', length (filter (\<lambda>r. is_archived r
                \<and> (case df of None \<Rightarrow> True | Some d \<Rightarrow> d \<le> timestamp r)
                \<and> (case dt of None \<Rightarrow> True | Some d \<Rightarrow> timestamp r \<le> d)) (db Assessments))),
             (''reports'', length (filter (\<lambda>r. is_archived r
                \<and> (case df of None \<Rightarrow> True | Some d \<Rightarrow> d \<le> timestamp r)
                \<and> (case dt of None \<Rightarrow> True | Some d \<Rightarrow> timestamp r \<le> d)) (db Reports))),
             (''certificates'', length (filter (\<lambda>r. is_archived r
                \<and> (case df of None \<Rightarrow> True | Some d \<Rightarrow> d \<le> timestamp r)
                \<and> (case dt of None \<Rightarrow> True | Some d \<Rightarrow> timestamp r \<le> d)) (db Certificates))),
             (''flood_activities'', length (filter (\<lambda>r. is_archived r
                \<and> (case df of None \<Rightarrow> True | Some d \<Rightarrow> d \<le> timestamp r)
                \<and> (case dt of None \<Rightarrow> True | Some d \<Rightarrow> timestamp r \<le> d)) (db FloodActivities))),
             (''user_logs'', length (filter (\<lambda>r. is_archived r
                \<and> (case df of None \<Rightarrow> True | Some d \<Rightarrow> d \<le> timestamp r)
                \<and> (case dt of None \<Rightarrow> True | Some d \<Rightarrow> timestamp r \<le> d)) (db UserLogs))),
             (''total'', length (filter (\<lambda>r. is_archived r
                \<and> (case df of None \<Rightarrow> True | Some d \<Rightarrow> d \<le> timestamp r)
                \<and> (case dt of None \<Rightarrow> True | Some d \<Rightarrow> timestamp r \<le> d)) (db Assessments))
              + length (filter (\<lambda>r. is_archived r
                \<and> (case df of None \<Rightarrow> True | Some d \<Rightarrow> d \<le> timestamp r)
                \<and> (case dt of None \<Rightarrow> True | Some d \<Rightarrow> timestamp r \<le> d)) (db Reports))
              + length (filter (\<lambda>r. is_archived r
                \<and> (case df of None \<Rightarrow> True | Some d \<Rightarrow> d \<le> timestamp r)
                \<and> (case dt of None \<Rightarrow> True | Some d \<Rightarrow> timestamp r \<le> d)) (db Certificates))
              + length (filter (\<lambda>r. is_archived r
                \<and> (case df of None \<Rightarrow> True | Some d \<Rightarrow> d \<le> timestamp r)
                \<and> (case dt of None \<Rightarrow> True | Some d \<Rightarrow> timestamp r \<le> d)) (db FloodActivities))
              + length (filter (\<lambda>r. is_archived r
                \<and> (case df of None \<Rightarrow> True | Some d \<Rightarrow> d \<le> timestamp r)
                \<and> (case dt of None \<Rightarrow> True | Some d \<Rightarrow> timestamp r \<le> d)) (db UserLogs)))]"
      by (rule conjunct2)
  qed
qed

theorem all_flag_overrides_type_witness:
  "restore_count_records True (Some ''reports'') None None report_db
     = \<lparr>assessments = 1, reports = 2, certificates = 0, flood_activities = 0, user_logs = 0,
        total = 3\<rparr>
   \<and> fst (fst (restore_records no_failure True (Some ''reports'') None None (report_db, [])))
       Assessments
     = [\<lparr>pk = 3, business = ''Barangay III'', timestamp = 100, is_archived = False,
         archived_at = None\<rparr>]
   \<and> fst (fst (restore_records no_failure True (Some ''reports'') None None (report_db, [])))
       Reports
     = [\<lparr>pk = 1, business = ''Barangay I'', timestamp = 100, is_archived = False,
         archived_at = None\<rparr>,
        \<lparr>pk = 3, business = ''Barangay III'', timestamp = 100, is_archived = False,
         archived_at = None\<rparr>,
        \<lparr>pk = 4, business = ''Barangay IV'', timestamp = 900, is_archived = False,
         archived_at = None\<rparr>]
   \<and> snd (restore_records no_failure True (Some ''reports'') None None (report_db, []))
     = Inr [(''assessments'', 1), (''reports'', 2), (''certificates'', 0),
            (''flood_activities'', 0), (''user_logs'', 0), (''total'', 3)]"
proof -
  have ok: "\<forall>k. \<not> no_failure k"
    by simp
  note t = all_flag_overrides_type [where rt = "Some ''reports''" and df = None and dt = None
      and db = report_db and brk = no_failure and out = "[]" and s = "(report_db, [])"
      and strptime = sample_strptime and e = sample_env and dry_run = True and execute = False
      and dfs = None and dts = None, unfolded Let_def]
  note both = t [THEN conjunct2, THEN conjunct2, THEN conjunct2]
  note cnt = both [THEN conjunct1]
  note upd = both [THEN conjunct2, THEN mp, OF ok]
  have 1: "restore_count_records True (Some ''reports'') None None report_db
     = \<lparr>assessments = 1, reports = 2, certificates = 0, flood_activities = 0, user_logs = 0,
        total = 3\<rparr>"
    using cnt by (simp add: old_row_def shelved_row_def late_row_def)
  have 2: "fst (fst (restore_records no_failure True (Some ''reports'') None None (report_db, [])))
       Assessments
     = [\<lparr>pk = 3, business = ''Barangay III'', timestamp = 100, is_archived = False,
         archived_at = None\<rparr>]"
    using upd [THEN conjunct1, rule_format, of Assessments]
    by (simp add: shelved_row_def)
  have 3: "fst (fst (restore_records no_failure True (Some ''reports'') None None (report_db, [])))
       Reports
     = [\<lparr>pk = 1, business = ''Barangay I'', timestamp = 100, is_archived = False,
         archived_at = None\<rparr>,
        \<lparr>pk = 3, business = ''Barangay III'', timestamp = 100, is_archived = False,
         archived_at = None\<rparr>,
        \<lparr>pk = 4, business = ''Barangay IV'', timestamp = 900, is_archived = False,
         archived_at = None\<rparr>]"
    using upd [THEN conjunct1, rule_format, of Reports]
    by (simp add: old_row_def shelved_row_def late_row_def)
  have 4: "snd (restore_records no_failure True (Some ''reports'') None None (report_db, []))
     = Inr [(''assessments'', 1), (''reports'', 2), (''certificates'', 0),
            (''flood_activities'', 0), (''user_logs'', 0), (''total'', 3)]"
    using upd [THEN conjunct2] by (simp add: old_row_def shelved_row_def late_row_def)
  show ?thesis
    using 1 2 3 4 by blast
qed

end
